(* ===== verification/Navbar_Prelude.thy ===== *)
theory Navbar_Prelude
  imports Main
begin

text \<open>
  Shared vocabulary of the Navbar development: the collections of unfolding rules that
  the component theories fill, the reading of JavaScript's optional values, and the
  splitting of a \<^verbatim>\<open>className\<close> string into its class tokens. Nothing here models a line of
  \<^verbatim>\<open>Navbar.tsx\<close>; the component theories import it.

  Strings: a JavaScript string literal of the source is the \<^typ>\<open>string\<close> of its UTF-8
  bytes as they stand in the source file. The component compares strings only with
  \<^verbatim>\<open>===\<close>, and UTF-8 is injective on code point sequences, so equality of the byte
  lists is equality of the JavaScript strings.
\<close>

section \<open>Collections of rules\<close>

named_theorems nav_data \<open>definitions of the static configuration data\<close>
named_theorems render_defs \<open>definitions of the render functions\<close>
named_theorems hook_defs \<open>definitions of the hook state and its operations\<close>
named_theorems class_simps \<open>evaluation of class tokens of literal class strings\<close>

type_synonym js_string = string

section \<open>Optional values of JavaScript\<close>

text \<open>
  An optional property is \<open>None\<close> when the object literal does not have it.
  \<open>truthy\<close> is the boolean a condition makes of an optional boolean (\<^verbatim>\<open>undefined\<close> is
  falsy); \<open>present\<close> is the boolean a condition makes of an optional object or array
  (every object is truthy, the empty array included).
\<close>

definition truthy :: "bool option \<Rightarrow> bool" where
  "truthy v = (case v of None \<Rightarrow> False | Some b \<Rightarrow> b)"

definition present :: "'a option \<Rightarrow> bool" where
  "present v = (case v of None \<Rightarrow> False | Some _ \<Rightarrow> True)"

lemma truthy_simps [simp]:
  "truthy None = False" "truthy (Some b) = b"
  by (simp_all add: truthy_def)

lemma present_simps [simp]:
  "present None = False" "present (Some x) = True"
  by (simp_all add: present_def)

lemma present_iff: "present v \<longleftrightarrow> v \<noteq> None"
  by (cases v) simp_all

lemma present_obtain: "present v \<Longrightarrow> \<exists>x. v = Some x"
  by (cases v) simp_all

lemma truthy_iff: "truthy v \<longleftrightarrow> v = Some True"
  by (cases v) auto

section \<open>Class tokens\<close>

text \<open>
  A \<^verbatim>\<open>className\<close> is a list of tokens separated by spaces. \<open>tokens_acc cur s\<close> reads
  \<open>s\<close> with the reversed current token \<open>cur\<close>; runs of spaces separate tokens and
  make no empty token.
\<close>

fun tokens_acc :: "string \<Rightarrow> string \<Rightarrow> string list" where
  "tokens_acc cur [] = (if cur = [] then [] else [rev cur])"
| "tokens_acc cur (c # cs) =
     (if c = CHR '' ''
      then (if cur = [] then tokens_acc [] cs else rev cur # tokens_acc [] cs)
      else tokens_acc (c # cur) cs)"

definition class_tokens :: "string \<Rightarrow> string list" where
  "class_tokens s = tokens_acc [] s"

definition has_class :: "string \<Rightarrow> string \<Rightarrow> bool" where
  "has_class c s \<longleftrightarrow> c \<in> set (class_tokens s)"

fun join_tokens :: "string list \<Rightarrow> string" where
  "join_tokens [] = []"
| "join_tokens [t] = t"
| "join_tokens (t # u # ts) = t @ CHR '' '' # join_tokens (u # ts)"

definition token_ok :: "string \<Rightarrow> bool" where
  "token_ok t \<longleftrightarrow> t \<noteq> [] \<and> CHR '' '' \<notin> set t"

lemma tokens_acc_nospace:
  "CHR '' '' \<notin> set t \<Longrightarrow> tokens_acc cur (t @ s) = tokens_acc (rev t @ cur) s"
  by (induction t arbitrary: cur) auto

lemma tokens_acc_append:
  "tokens_acc cur (a @ CHR '' '' # b) = tokens_acc cur a @ tokens_acc [] b"
  by (induction cur a rule: tokens_acc.induct) auto

lemma tokens_acc_ok:
  "t \<in> set (tokens_acc cur s) \<Longrightarrow> CHR '' '' \<notin> set cur \<Longrightarrow> token_ok t"
  by (induction cur s rule: tokens_acc.induct) (auto simp: token_ok_def split: if_splits)

lemma class_tokens_ok: "t \<in> set (class_tokens s) \<Longrightarrow> token_ok t"
  by (auto simp: class_tokens_def dest: tokens_acc_ok)

lemma class_tokens_append:
  "class_tokens (a @ CHR '' '' # b) = class_tokens a @ class_tokens b"
  by (simp add: class_tokens_def tokens_acc_append)

lemma class_tokens_Nil [simp]: "class_tokens [] = []"
  by (simp add: class_tokens_def)

lemma class_tokens_single: "token_ok t \<Longrightarrow> class_tokens t = [t]"
  using tokens_acc_nospace [of t "[]" "[]"] by (simp add: class_tokens_def token_ok_def)

text \<open>Splitting is a left inverse of joining tokens with single spaces.\<close>

lemma class_tokens_join: "list_all token_ok ts \<Longrightarrow> class_tokens (join_tokens ts) = ts"
proof (induction ts rule: join_tokens.induct)
  case 1
  show ?case by simp
next
  case (2 t)
  then show ?case by (simp add: class_tokens_single)
next
  case (3 t u ts)
  then show ?case by (simp add: class_tokens_append class_tokens_single)
qed

lemma has_class_append:
  "has_class c (a @ CHR '' '' # b) \<longleftrightarrow> has_class c a \<or> has_class c b"
  by (auto simp: has_class_def class_tokens_append)

lemma has_class_join:
  "list_all token_ok ts \<Longrightarrow> has_class c (join_tokens ts) \<longleftrightarrow> c \<in> set ts"
  by (simp add: has_class_def class_tokens_join)

lemma has_class_if:
  "has_class c (if b then s else t) \<longleftrightarrow> (if b then has_class c s else has_class c t)"
  by simp

section \<open>Lists\<close>

text \<open>Facts on \<open>filter\<close>, \<open>map\<close> and \<open>concat\<close> that the render lemmas share.\<close>

lemma list_all_filterI: "list_all P xs \<Longrightarrow> list_all P (filter Q xs)"
  by (induction xs) auto

lemma list_all_concat_map:
  "list_all P (concat (map f xs)) \<longleftrightarrow> list_all (\<lambda>x. list_all P (f x)) xs"
  by (induction xs) auto

lemma list_ex_concat_map:
  "list_ex P (concat (map f xs)) \<longleftrightarrow> list_ex (\<lambda>x. list_ex P (f x)) xs"
  by (induction xs) auto

lemma filter_concat_map:
  "filter P (concat (map f xs)) = concat (map (\<lambda>x. filter P (f x)) xs)"
  by (induction xs) auto

lemma length_concat_map_le1:
  "(\<And>x. x \<in> set xs \<Longrightarrow> length (f x) = (if Q x then 1 else 0)) \<Longrightarrow>
   length (concat (map f xs)) = length (filter Q xs)"
  by (induction xs) auto

lemma length_filter_le_1_distinct:
  "distinct (map f xs) \<Longrightarrow> length (filter (\<lambda>x. f x = v) xs) \<le> 1"
  by (induction xs) (auto simp: filter_empty_conv image_iff)

lemma filter_eq_singleton_distinct:
  "distinct (map f xs) \<Longrightarrow> x \<in> set xs \<Longrightarrow> filter (\<lambda>y. f y = f x) xs = [x]"
proof (induction xs)
  case Nil
  then show ?case by simp
next
  case (Cons a xs)
  show ?case
  proof (cases "a = x")
    case True
    with Cons.prems have "filter (\<lambda>y. f y = f x) xs = []"
      by (auto simp: filter_empty_conv image_iff)
    with True show ?thesis by simp
  next
    case False
    with Cons.prems have "x \<in> set xs" and "f a \<noteq> f x"
      by (auto simp: image_iff)
    with Cons show ?thesis by simp
  qed
qed

end
