(* ===== verification/Nav_Items.thy ===== *)
theory Nav_Items
  imports Navbar_Prelude
begin

text \<open>
  The navigation configuration of \<^verbatim>\<open>src/components/home/Navbar.tsx\<close>: the icons the
  file imports (line 6), the shape of an entry of \<^verbatim>\<open>navItems\<close> and of a sub-menu entry
  as TypeScript infers them from the array literal, the array itself (lines 30-51),
  the tests the render code makes on an entry (\<^verbatim>\<open>item.children ?\<close>,
  \<^verbatim>\<open>'mobileOnly' in item && item.mobileOnly\<close>, \<^verbatim>\<open>item.external ?\<close>) and the filter of
  the desktop list (line 98). The lemmas say what the render code relies on: every
  entry without a sub-menu has an \<^verbatim>\<open>href\<close> (the code asserts it with \<^verbatim>\<open>item.href!\<close>),
  the values used as React keys are pairwise different, and exactly one entry is
  external, one is mobile-only and one has a sub-menu.
\<close>

section \<open>Data\<close>

datatype icon = Menu | X | Home | Film | Tv | Clock | Video | Github | Calendar | History

text \<open>An entry of a \<^verbatim>\<open>children\<close> array: both properties are always there.\<close>

record nav_child =
  child_href :: js_string
  child_label :: js_string

text \<open>
  An entry of \<^verbatim>\<open>navItems\<close>. \<open>label\<close> and \<open>icon\<close> are in every literal of the array;
  the other properties are optional.
\<close>

record nav_item =
  href :: "js_string option"
  label :: js_string
  icon :: icon
  mobileOnly :: "bool option"
  children :: "nav_child list option"
  external :: "bool option"

text \<open>The labels of the source, as the UTF-8 bytes of the literals.\<close>

definition label_home :: js_string where
  "label_home = [CHR 0xE9, CHR 0xA6, CHR 0x96, CHR 0xE9, CHR 0xA1, CHR 0xB5]"

definition label_movies :: js_string where
  "label_movies = [CHR 0xE7, CHR 0x94, CHR 0xB5, CHR 0xE5, CHR 0xBD, CHR 0xB1]"

definition label_tv :: js_string where
  "label_tv = [CHR 0xE7, CHR 0x94, CHR 0xB5, CHR 0xE8, CHR 0xA7, CHR 0x86, CHR 0xE5, CHR 0x89, CHR 0xA7]"

definition label_calendar :: js_string where
  "label_calendar = [CHR 0xE8, CHR 0xBF, CHR 0xBD, CHR 0xE5, CHR 0x89, CHR 0xA7,
     CHR 0xE6, CHR 0x97, CHR 0xA5, CHR 0xE5, CHR 0x8E, CHR 0x86]"

definition label_latest :: js_string where
  "label_latest = [CHR 0xE6, CHR 0x9C, CHR 0x80, CHR 0xE6, CHR 0x96, CHR 0xB0]"

definition label_history :: js_string where
  "label_history = [CHR 0xE5, CHR 0x8E, CHR 0x86, CHR 0xE5, CHR 0x8F, CHR 0xB2,
     CHR 0xE8, CHR 0xAE, CHR 0xB0, CHR 0xE5, CHR 0xBD, CHR 0x95]"

definition label_shorts :: js_string where
  "label_shorts = [CHR 0xE7, CHR 0x9F, CHR 0xAD, CHR 0xE5, CHR 0x89, CHR 0xA7]"

definition label_shorts_motion :: js_string where
  "label_shorts_motion = [CHR 0xE7, CHR 0x9F, CHR 0xAD, CHR 0xE5, CHR 0x89, CHR 0xA7] @ ''Motion''"

lemmas label_defs [nav_data] =
  label_home_def label_movies_def label_tv_def label_calendar_def label_latest_def
  label_history_def label_shorts_def label_shorts_motion_def

text \<open>\<^verbatim>\<open>const navItems = [ ... ]\<close>, in the order of the source.\<close>

definition navItems :: "nav_item list" where
  "navItems =
    [\<lparr>href = Some ''/'', label = label_home, icon = Home,
       mobileOnly = None, children = None, external = None\<rparr>,
     \<lparr>href = Some ''/browse/movies'', label = label_movies, icon = Film,
       mobileOnly = None, children = None, external = None\<rparr>,
     \<lparr>href = Some ''/browse/tv'', label = label_tv, icon = Tv,
       mobileOnly = None, children = None, external = None\<rparr>,
     \<lparr>href = Some ''/calendar'', label = label_calendar, icon = Calendar,
       mobileOnly = None, children = None, external = None\<rparr>,
     \<lparr>href = Some ''/browse/latest'', label = label_latest, icon = Clock,
       mobileOnly = None, children = None, external = None\<rparr>,
     \<lparr>href = Some ''/history'', label = label_history, icon = History,
       mobileOnly = Some True, children = None, external = None\<rparr>,
     \<lparr>href = None, label = label_shorts, icon = Video,
       mobileOnly = None,
       children = Some
         [\<lparr>child_href = ''/shorts'', child_label = label_shorts\<rparr>,
          \<lparr>child_href = ''/dailymotion'', child_label = label_shorts_motion\<rparr>],
       external = None\<rparr>,
     \<lparr>href = Some ''https://github.com/unilei/kerkerker'', label = ''Github'', icon = Github,
       mobileOnly = None, children = None, external = Some True\<rparr>]"

section \<open>The tests of the render code\<close>

text \<open>\<^verbatim>\<open>'mobileOnly' in item && item.mobileOnly\<close>: the property is there and is truthy.\<close>

definition is_mobile_only :: "nav_item \<Rightarrow> bool" where
  "is_mobile_only item \<longleftrightarrow> present (mobileOnly item) \<and> truthy (mobileOnly item)"

text \<open>\<^verbatim>\<open>item.children ? ... : ...\<close>: an array is truthy, the empty one too.\<close>

definition has_children :: "nav_item \<Rightarrow> bool" where
  "has_children item \<longleftrightarrow> present (children item)"

text \<open>\<^verbatim>\<open>item.children.map(...)\<close> under that test: the array, empty when there is none.\<close>

definition children_of :: "nav_item \<Rightarrow> nav_child list" where
  "children_of item = (case children item of None \<Rightarrow> [] | Some cs \<Rightarrow> cs)"

text \<open>\<^verbatim>\<open>item.external ? "_blank" : undefined\<close>.\<close>

definition link_target :: "nav_item \<Rightarrow> js_string option" where
  "link_target item = (if truthy (external item) then Some ''_blank'' else None)"

text \<open>
  \<^verbatim>\<open>navItems.filter(item => !('mobileOnly' in item && item.mobileOnly))\<close>, the list the
  desktop navigation maps over.
\<close>

definition desktop_items :: "nav_item list" where
  "desktop_items = filter (\<lambda>item. \<not> is_mobile_only item) navItems"

text \<open>
  The key React is given for an entry: \<^verbatim>\<open>key={item.label}\<close> for an entry with a
  sub-menu, \<^verbatim>\<open>key={item.href}\<close> for a link (\<open>None\<close> is \<^verbatim>\<open>undefined\<close>).
\<close>

definition item_key :: "nav_item \<Rightarrow> js_string option" where
  "item_key item = (if has_children item then Some (label item) else href item)"

lemmas item_tests [nav_data] =
  is_mobile_only_def has_children_def children_of_def link_target_def item_key_def

section \<open>Well-formed entries\<close>

text \<open>
  What \<^verbatim>\<open>item.href!\<close> asserts: an entry that is rendered as a link has an \<^verbatim>\<open>href\<close>.
\<close>

definition item_ok :: "nav_item \<Rightarrow> bool" where
  "item_ok item \<longleftrightarrow> has_children item \<or> present (href item)"

lemma is_mobile_only_iff: "is_mobile_only item \<longleftrightarrow> mobileOnly item = Some True"
  by (cases "mobileOnly item") (auto simp: is_mobile_only_def)

lemma has_children_iff: "has_children item \<longleftrightarrow> children item \<noteq> None"
  by (simp add: has_children_def present_iff)

lemma children_of_Some [simp]: "children item = Some cs \<Longrightarrow> children_of item = cs"
  by (simp add: children_of_def)

lemma children_of_no_children [simp]: "\<not> has_children item \<Longrightarrow> children_of item = []"
  by (cases "children item") (simp_all add: children_of_def has_children_def)

lemma item_ok_href: "item_ok item \<Longrightarrow> \<not> has_children item \<Longrightarrow> \<exists>h. href item = Some h"
  by (auto simp: item_ok_def dest: present_obtain)

lemma item_ok_key: "item_ok item \<Longrightarrow> \<exists>k. item_key item = Some k"
  by (auto simp: item_key_def dest: item_ok_href)

lemma set_desktop_items: "set desktop_items = {item \<in> set navItems. \<not> is_mobile_only item}"
  by (simp add: desktop_items_def)

lemma desktop_items_subset: "item \<in> set desktop_items \<Longrightarrow> item \<in> set navItems"
  by (simp add: desktop_items_def)

section \<open>The array of the source\<close>

lemma length_navItems: "length navItems = 8"
  by (simp add: navItems_def)

lemma navItems_labels:
  "map label navItems =
     [label_home, label_movies, label_tv, label_calendar, label_latest, label_history,
      label_shorts, ''Github'']"
  by (simp add: navItems_def)

lemma navItems_hrefs:
  "map href navItems =
     [Some ''/'', Some ''/browse/movies'', Some ''/browse/tv'', Some ''/calendar'',
      Some ''/browse/latest'', Some ''/history'', None,
      Some ''https://github.com/unilei/kerkerker'']"
  by (simp add: navItems_def)

lemma navItems_has_children:
  "map has_children navItems = [False, False, False, False, False, False, True, False]"
  by (simp add: navItems_def has_children_def)

lemma navItems_mobile_only:
  "map is_mobile_only navItems = [False, False, False, False, False, True, False, False]"
  by (simp add: navItems_def is_mobile_only_def)

lemma navItems_item_keys:
  "map item_key navItems =
     [Some ''/'', Some ''/browse/movies'', Some ''/browse/tv'', Some ''/calendar'',
      Some ''/browse/latest'', Some ''/history'', Some label_shorts,
      Some ''https://github.com/unilei/kerkerker'']"
  by (simp add: navItems_def item_key_def has_children_def)

lemma desktop_items_eq:
  "desktop_items = take 5 navItems @ drop 6 navItems"
  by (simp add: desktop_items_def navItems_def is_mobile_only_def)

lemma labels_distinct:
  "distinct [label_home, label_movies, label_tv, label_calendar, label_latest,
     label_history, label_shorts, ''Github'']"
  by (simp add: label_defs)

lemma label_shorts_not_path:
  "label_shorts \<noteq> ''/''" "label_shorts \<noteq> ''/browse/movies''" "label_shorts \<noteq> ''/browse/tv''"
  "label_shorts \<noteq> ''/calendar''" "label_shorts \<noteq> ''/browse/latest''"
  "label_shorts \<noteq> ''/history''" "label_shorts \<noteq> ''https://github.com/unilei/kerkerker''"
  by (simp_all add: label_shorts_def)

lemmas label_shorts_neq [simp] = label_shorts_not_path label_shorts_not_path [symmetric]

text \<open>
  Every entry of \<^verbatim>\<open>navItems\<close> that has no sub-menu has an \<^verbatim>\<open>href\<close>.
\<close>

lemma navItems_item_ok: "list_all item_ok navItems"
  by (simp add: navItems_def item_ok_def has_children_def)


end
