(* ===== verification/View_Tree.thy ===== *)
theory View_Tree
  imports Navbar_Prelude
begin

text \<open>
  The element tree a render returns, as the calls of \<^verbatim>\<open>React.createElement\<close> that JSX
  stands for: a tag (an HTML tag name, a component or a fragment), the properties in
  the order of the source, and the children. A handler property holds a value of the
  type variable \<open>'a\<close>: what the closure does when it is called. The theory is generic
  in the components \<open>'c\<close> and the handlers \<open>'a\<close>; \<open>Navbar_Render\<close> instantiates both.

  It also holds the part of the style sheet that decides what a user can reach: the
  classes \<^verbatim>\<open>hidden\<close>, \<^verbatim>\<open>md:hidden\<close>, \<^verbatim>\<open>md:flex\<close>, \<^verbatim>\<open>opacity-0\<close>, \<^verbatim>\<open>pointer-events-none\<close>
  and \<^verbatim>\<open>pointer-events-auto\<close> at the two widths the source distinguishes (below and from
  the \<^verbatim>\<open>md\<close> breakpoint), and the stacking of the layers of a fragment (\<^verbatim>\<open>fixed\<close>,
  \<^verbatim>\<open>inset-0\<close>, \<^verbatim>\<open>z-N\<close>), which decides what a pointer reaches.
\<close>

section \<open>Trees\<close>

datatype 'c vtag = Html js_string | Comp 'c | Fragment

datatype 'a pval = PStr js_string | PNum int | PUndefined | PHandler 'a

type_synonym 'a props = "(js_string \<times> 'a pval) list"

text \<open>
  \<open>VFalse\<close> is the child \<^verbatim>\<open>false\<close> that \<^verbatim>\<open>cond && <div/>\<close> leaves when the condition
  fails: React renders nothing for it.
\<close>

datatype ('c, 'a) vnode =
    VText js_string
  | VFalse
  | VElem "'c vtag" "'a props" "('c, 'a) vnode list"

section \<open>Properties\<close>

text \<open>The value of a property; \<^verbatim>\<open>undefined\<close> when the element does not have it.\<close>

definition prop_of :: "js_string \<Rightarrow> 'a props \<Rightarrow> 'a pval" where
  "prop_of k ps = (case map_of ps k of None \<Rightarrow> PUndefined | Some v \<Rightarrow> v)"

definition str_prop :: "js_string \<Rightarrow> 'a props \<Rightarrow> js_string option" where
  "str_prop k ps = (case prop_of k ps of PStr s \<Rightarrow> Some s | _ \<Rightarrow> None)"

definition class_of :: "'a props \<Rightarrow> js_string" where
  "class_of ps = (case str_prop ''className'' ps of None \<Rightarrow> [] | Some s \<Rightarrow> s)"

text \<open>The handlers of an element, each with the name of its property.\<close>

fun handlers :: "'a props \<Rightarrow> (js_string \<times> 'a) list" where
  "handlers [] = []"
| "handlers ((k, PHandler a) # ps) = (k, a) # handlers ps"
| "handlers (_ # ps) = handlers ps"

lemma prop_of_Cons [simp]:
  "prop_of k ((k', v) # ps) = (if k = k' then v else prop_of k ps)"
  by (simp add: prop_of_def)

lemma prop_of_Nil [simp]: "prop_of k [] = PUndefined"
  by (simp add: prop_of_def)

lemma str_prop_Cons [simp]:
  "str_prop k ((k', v) # ps) =
     (if k = k' then (case v of PStr s \<Rightarrow> Some s | _ \<Rightarrow> None) else str_prop k ps)"
  by (simp add: str_prop_def)

lemma str_prop_Nil [simp]: "str_prop k [] = None"
  by (simp add: str_prop_def)

lemma handlers_append [simp]: "handlers (ps @ qs) = handlers ps @ handlers qs"
  by (induction ps rule: handlers.induct) auto

lemma handlers_mem: "(k, a) \<in> set (handlers ps) \<longleftrightarrow> (k, PHandler a) \<in> set ps"
  by (induction ps rule: handlers.induct) auto

section \<open>Traversals\<close>

text \<open>All nodes of a tree, the root first, in document order.\<close>

fun nodes :: "('c, 'a) vnode \<Rightarrow> ('c, 'a) vnode list" where
  "nodes (VElem t ps ks) = VElem t ps ks # concat (map nodes ks)"
| "nodes n = [n]"

text \<open>The elements with a given tag, as pairs of properties and children.\<close>

fun elems :: "'c vtag \<Rightarrow> ('c, 'a) vnode \<Rightarrow> ('a props \<times> ('c, 'a) vnode list) list" where
  "elems t (VElem t' ps ks) =
     (if t = t' then [(ps, ks)] else []) @ concat (map (elems t) ks)"
| "elems t _ = []"

text \<open>Every handler of a tree, whether a user can reach it or not.\<close>

fun all_handlers :: "('c, 'a) vnode \<Rightarrow> (js_string \<times> 'a) list" where
  "all_handlers (VElem t ps ks) = handlers ps @ concat (map all_handlers ks)"
| "all_handlers _ = []"

text \<open>The text of a tree, piece by piece.\<close>

fun texts :: "('c, 'a) vnode \<Rightarrow> js_string list" where
  "texts (VText s) = [s]"
| "texts VFalse = []"
| "texts (VElem t ps ks) = concat (map texts ks)"

text \<open>The components a tree instantiates, in document order.\<close>

fun comps :: "('c, 'a) vnode \<Rightarrow> 'c list" where
  "comps (VElem t ps ks) = (case t of Comp c \<Rightarrow> [c] | _ \<Rightarrow> []) @ concat (map comps ks)"
| "comps _ = []"

text \<open>The class string and the children of the root of a tree.\<close>

fun root_class :: "('c, 'a) vnode \<Rightarrow> js_string" where
  "root_class (VElem t ps ks) = class_of ps"
| "root_class _ = []"

fun kids :: "('c, 'a) vnode \<Rightarrow> ('c, 'a) vnode list" where
  "kids (VElem t ps ks) = ks"
| "kids _ = []"

text \<open>The key React is given for an element of an array of children.\<close>

fun key_of :: "('c, 'a) vnode \<Rightarrow> js_string option" where
  "key_of (VElem t ps ks) = str_prop ''key'' ps"
| "key_of _ = None"

lemma nodes_self: "n \<in> set (nodes n)"
  by (cases n) simp_all

lemma nodes_child: "k \<in> set ks \<Longrightarrow> n \<in> set (nodes k) \<Longrightarrow> n \<in> set (nodes (VElem t ps ks))"
  by auto

lemma elems_nodes:
  "(ps, ks) \<in> set (elems t n) \<longleftrightarrow> VElem t ps ks \<in> set (nodes n)"
  by (induction t n rule: elems.induct) auto

text \<open>A tree has no element of a component it does not instantiate.\<close>

lemma elems_not_comp: "c \<notin> set (comps n) \<Longrightarrow> elems (Comp c) n = []"
proof (induction n)
  case (VElem t ps ks)
  then show ?case by (cases t) auto
qed simp_all

lemma all_handlers_nodes:
  "h \<in> set (all_handlers n) \<longleftrightarrow> (\<exists>t ps ks. VElem t ps ks \<in> set (nodes n) \<and> h \<in> set (handlers ps))"
  by (induction n rule: all_handlers.induct) (auto, blast+)

section \<open>What a user can reach\<close>

datatype viewport = Mobile | Desktop

text \<open>
  \<open>display_none vp c\<close>: an element with class string \<open>c\<close> is not displayed at width
  \<open>vp\<close>. Below the breakpoint only \<^verbatim>\<open>hidden\<close> counts; from it on \<^verbatim>\<open>md:hidden\<close> hides
  and \<^verbatim>\<open>md:flex\<close> shows again what \<^verbatim>\<open>hidden\<close> hid.
\<close>

definition display_none :: "viewport \<Rightarrow> js_string \<Rightarrow> bool" where
  "display_none vp c =
     (case vp of
        Mobile \<Rightarrow> has_class ''hidden'' c
      | Desktop \<Rightarrow> has_class ''md:hidden'' c \<or> (has_class ''hidden'' c \<and> \<not> has_class ''md:flex'' c))"

text \<open>
  \<open>pointer_events pe c\<close>: whether an element takes pointer events, given what it
  inherits: \<^verbatim>\<open>pointer-events-none\<close> and \<^verbatim>\<open>pointer-events-auto\<close> set the value, which is
  inherited otherwise.
\<close>

definition pointer_events :: "bool \<Rightarrow> js_string \<Rightarrow> bool" where
  "pointer_events pe c =
     (if has_class ''pointer-events-none'' c then False
      else if has_class ''pointer-events-auto'' c then True
      else pe)"

text \<open>
  The handlers a pointer can fire at width \<open>vp\<close>: those of the elements that are
  displayed (no ancestor is hidden) and take pointer events.
\<close>

fun reachable_handlers :: "viewport \<Rightarrow> bool \<Rightarrow> ('c, 'a) vnode \<Rightarrow> (js_string \<times> 'a) list" where
  "reachable_handlers vp pe (VElem t ps ks) =
     (if display_none vp (class_of ps) then []
      else (if pointer_events pe (class_of ps) then handlers ps else []) @
           concat (map (reachable_handlers vp (pointer_events pe (class_of ps))) ks))"
| "reachable_handlers vp pe _ = []"

definition interactive :: "viewport \<Rightarrow> ('c, 'a) vnode \<Rightarrow> (js_string \<times> 'a) list" where
  "interactive vp n = reachable_handlers vp True n"

text \<open>
  \<open>invisible vp c\<close>: an element with class string \<open>c\<close> cannot be seen at width
  \<open>vp\<close>: it has no box, or it is fully transparent (\<^verbatim>\<open>opacity-0\<close>).
\<close>

definition invisible :: "viewport \<Rightarrow> js_string \<Rightarrow> bool" where
  "invisible vp c \<longleftrightarrow> display_none vp c \<or> has_class ''opacity-0'' c"

text \<open>The elements with a given tag that can be seen at width \<open>vp\<close>.\<close>

fun shown :: "viewport \<Rightarrow> 'c vtag \<Rightarrow> ('c, 'a) vnode \<Rightarrow> ('a props \<times> ('c, 'a) vnode list) list" where
  "shown vp t (VElem t' ps ks) =
     (if invisible vp (class_of ps) then []
      else (if t = t' then [(ps, ks)] else []) @ concat (map (shown vp t) ks))"
| "shown vp t _ = []"

lemma reachable_handlers_subset:
  "h \<in> set (reachable_handlers vp pe n) \<Longrightarrow> h \<in> set (all_handlers n)"
  by (induction vp pe n rule: reachable_handlers.induct) (auto split: if_splits)

lemma interactive_subset: "h \<in> set (interactive vp n) \<Longrightarrow> h \<in> set (all_handlers n)"
  unfolding interactive_def by (rule reachable_handlers_subset)

lemma shown_subset: "e \<in> set (shown vp t n) \<Longrightarrow> e \<in> set (elems t n)"
  by (induction vp t n rule: shown.induct) (auto split: if_splits)

lemma reachable_handlers_hidden:
  "display_none vp (class_of ps) \<Longrightarrow> reachable_handlers vp pe (VElem t ps ks) = []"
  by simp

text \<open>No element of the tree switches pointer events back on.\<close>

fun no_pointer_auto :: "('c, 'a) vnode \<Rightarrow> bool" where
  "no_pointer_auto (VElem t ps ks) \<longleftrightarrow>
     \<not> has_class ''pointer-events-auto'' (class_of ps) \<and> list_all no_pointer_auto ks"
| "no_pointer_auto _ \<longleftrightarrow> True"

lemma reachable_handlers_no_pointer:
  "\<not> pe \<Longrightarrow> no_pointer_auto n \<Longrightarrow> reachable_handlers vp pe n = []"
proof (induction vp pe n rule: reachable_handlers.induct)
  case (1 vp pe t ps ks)
  show ?case
  proof (cases "display_none vp (class_of ps)")
    case True
    then show ?thesis by simp
  next
    case False
    from "1.prems" have own: "\<not> pointer_events pe (class_of ps)"
      by (simp add: pointer_events_def)
    have "reachable_handlers vp (pointer_events pe (class_of ps)) k = []" if "k \<in> set ks" for k
      using that own False "1.prems" by (intro "1.IH") (auto simp: list_all_iff)
    with own False show ?thesis by simp
  qed
qed simp_all

section \<open>Stacking\<close>

text \<open>
  The stacking level of an element: the number of its class \<^verbatim>\<open>z-N\<close> or \<^verbatim>\<open>z-[N]\<close>, and
  \<open>0\<close> for an element without one.
\<close>

definition digit_of :: "char \<Rightarrow> nat option" where
  "digit_of c =
     (let n = (of_char c :: nat) in if 48 \<le> n \<and> n \<le> 57 then Some (n - 48) else None)"

fun number_acc :: "nat \<Rightarrow> js_string \<Rightarrow> nat option" where
  "number_acc n [] = Some n"
| "number_acc n (c # cs) =
     (case digit_of c of None \<Rightarrow> None | Some d \<Rightarrow> number_acc (10 * n + d) cs)"

definition number_of :: "js_string \<Rightarrow> nat option" where
  "number_of s = (if s = [] then None else number_acc 0 s)"

definition z_of_token :: "js_string \<Rightarrow> nat option" where
  "z_of_token t =
     (if take 2 t = ''z-'' then
        (let r = drop 2 t in
         if take 1 r = ''['' \<and> take 1 (rev r) = '']'' then number_of (butlast (tl r))
         else number_of r)
      else None)"

definition z_index :: "js_string \<Rightarrow> nat" where
  "z_index c = (case List.map_filter z_of_token (class_tokens c) of [] \<Rightarrow> 0 | z # _ \<Rightarrow> z)"

text \<open>
  An element with the classes \<^verbatim>\<open>fixed\<close> and \<^verbatim>\<open>inset-0\<close> covers the window. When it is
  displayed and takes pointer events, a pointer reaches nothing of a sibling with a
  lower stacking level: \<open>blocks vp n\<close> is the level of such a layer.
\<close>

definition full_layer :: "js_string \<Rightarrow> bool" where
  "full_layer c \<longleftrightarrow> has_class ''fixed'' c \<and> has_class ''inset-0'' c"

fun blocks :: "viewport \<Rightarrow> ('c, 'a) vnode \<Rightarrow> nat option" where
  "blocks vp (VElem t ps ks) =
     (if \<not> display_none vp (class_of ps) \<and> full_layer (class_of ps) \<and>
         pointer_events True (class_of ps)
      then Some (z_index (class_of ps)) else None)"
| "blocks vp _ = None"

definition covered :: "viewport \<Rightarrow> ('c, 'a) vnode list \<Rightarrow> ('c, 'a) vnode \<Rightarrow> bool" where
  "covered vp ls n \<longleftrightarrow>
     list_ex (\<lambda>l. case blocks vp l of None \<Rightarrow> False | Some z \<Rightarrow> z_index (root_class n) < z) ls"

text \<open>
  The handlers a pointer can fire on the layers of a fragment: those of the layers
  that no other layer covers.
\<close>

fun pointer_handlers :: "viewport \<Rightarrow> ('c, 'a) vnode \<Rightarrow> (js_string \<times> 'a) list" where
  "pointer_handlers vp (VElem Fragment ps ks) =
     concat (map (\<lambda>k. if covered vp ks k then [] else reachable_handlers vp True k) ks)"
| "pointer_handlers vp n = reachable_handlers vp True n"

lemmas z_eval = z_index_def z_of_token_def number_of_def digit_of_def class_tokens_def
  List.map_filter_simps full_layer_def has_class_def

text \<open>A pointer fires only what can be fired.\<close>

lemma pointer_handlers_subset:
  "h \<in> set (pointer_handlers vp (VElem Fragment [] ks)) \<Longrightarrow>
   h \<in> set (interactive vp (VElem Fragment [] ks))"
  by (auto simp: interactive_def display_none_def pointer_events_def class_of_def str_prop_def
      has_class_def class_tokens_def split: if_splits viewport.splits)

section \<open>Elements whose classes do not matter\<close>

text \<open>
  A class string is plain when none of its tokens hides the element or sets its
  pointer events: such an element is displayed at both widths and inherits its
  pointer events. One pass over the tokens decides it.
\<close>

definition plain_class :: "js_string \<Rightarrow> bool" where
  "plain_class c \<longleftrightarrow>
     list_all (\<lambda>t. t \<notin> set [''hidden'', ''md:hidden'', ''pointer-events-none'',
       ''pointer-events-auto'', ''opacity-0'']) (class_tokens c)"

lemma class_of_simps [simp]:
  "class_of [] = []"
  "class_of ((''className'', PStr c) # ps) = c"
  "k \<noteq> ''className'' \<Longrightarrow> class_of ((k, v) # ps) = class_of ps"
  by (simp_all add: class_of_def str_prop_def)

lemma plain_class_Nil [simp]: "plain_class []"
  by (simp add: plain_class_def)

lemma plain_class_display [simp]: "plain_class c \<Longrightarrow> \<not> display_none vp c"
  by (cases vp) (auto simp: plain_class_def display_none_def has_class_def list_all_iff)

lemma plain_class_visible [simp]: "plain_class c \<Longrightarrow> \<not> invisible vp c"
  by (cases vp)
    (auto simp: plain_class_def invisible_def display_none_def has_class_def list_all_iff)

lemma plain_class_pointer [simp]: "plain_class c \<Longrightarrow> pointer_events pe c = pe"
  by (auto simp: plain_class_def pointer_events_def has_class_def list_all_iff)

lemma plain_class_no_auto: "plain_class c \<Longrightarrow> \<not> has_class ''pointer-events-auto'' c"
  by (auto simp: plain_class_def has_class_def list_all_iff)

lemma reachable_handlers_plain:
  "plain_class (class_of ps) \<Longrightarrow>
   reachable_handlers vp pe (VElem t ps ks) =
     (if pe then handlers ps else []) @ concat (map (reachable_handlers vp pe) ks)"
  by simp

lemma shown_plain:
  "plain_class (class_of ps) \<Longrightarrow>
   shown vp t (VElem t' ps ks) =
     (if t = t' then [(ps, ks)] else []) @ concat (map (shown vp t) ks)"
  by simp

lemma reachable_handlers_not_pe:
  "plain_class (class_of ps) \<Longrightarrow> \<forall>k \<in> set ks. reachable_handlers vp False k = [] \<Longrightarrow>
   reachable_handlers vp False (VElem t ps ks) = []"
  by simp

text \<open>A tree of plain elements is seen whole, at both widths.\<close>

fun all_plain :: "('c, 'a) vnode \<Rightarrow> bool" where
  "all_plain (VElem t ps ks) \<longleftrightarrow> plain_class (class_of ps) \<and> list_all all_plain ks"
| "all_plain _ \<longleftrightarrow> True"

lemma shown_all_plain: "all_plain n \<Longrightarrow> shown vp t n = elems t n"
proof (induction n)
  case (VElem t' ps ks)
  then have m: "map (shown vp t) ks = map (elems t) ks"
    by (auto simp: list_all_iff)
  from VElem.prems show ?case by (simp add: m)
qed simp_all

lemma shown_Nil: "elems t n = [] \<Longrightarrow> shown vp t n = []"
  using shown_subset [of _ vp t n] by (cases "shown vp t n") auto

text \<open>
  From here on the equations of \<open>reachable_handlers\<close> and \<open>shown\<close> for an
  element are applied by name (\<open>reachable_handlers_elem\<close>, \<open>shown_elem\<close>); the
  simplifier uses the rules for plain elements, which read the class string once.
\<close>

lemmas reachable_handlers_elem = reachable_handlers.simps(1)
lemmas shown_elem = shown.simps(1)

declare reachable_handlers.simps(1) [simp del]
declare shown.simps(1) [simp del]
declare reachable_handlers_plain [simp]
declare shown_plain [simp]

end
