(* ===== verification/Navbar_Hooks.thy ===== *)
theory Navbar_Hooks
  imports Navbar_Prelude
begin

text \<open>
  The stateful part of \<^verbatim>\<open>Navbar\<close> (lines 14-28 and 53 of
  \<^verbatim>\<open>src/components/home/Navbar.tsx\<close>): the two \<^verbatim>\<open>useState\<close> cells, what each kind of
  handler closure of the component does when it is called, the effect that writes
  \<^verbatim>\<open>document.body.style.overflow\<close> with its cleanup and its dependency array, and the
  life of a component instance under React: mount, a call of a handler, a render
  that takes up the queued state updates and runs the effect when its dependency
  changed, a render caused by new properties, unmount.

  The state of the world the component acts on is the record \<open>runtime\<close>: the mounted
  instance if there is one, the document, and the calls of the callback
  \<^verbatim>\<open>onSearchOpen\<close> made so far. Each operation is a function on it that returns \<open>None\<close> when it cannot happen
  (a handler of a component that is not mounted). The lemmas give the scroll-lock
  invariant and its preservation by every operation, the result of unmounting, and
  the reading of the update queue.
\<close>

section \<open>State\<close>

text \<open>
  \<^verbatim>\<open>interface NavbarProps\<close>. A callback is known by the name of the function the parent
  passes; what a call of it does is the parent's business and is recorded in a log.
\<close>

type_synonym callback = js_string

record navbar_props =
  scrolled :: bool
  onSearchOpen :: callback

text \<open>The values of \<^verbatim>\<open>useState(false)\<close> and \<^verbatim>\<open>useState<string | null>(null)\<close>.\<close>

record hooks =
  isMobileMenuOpen :: bool
  openDropdown :: "js_string option"

definition init_hooks :: hooks where
  "init_hooks = \<lparr>isMobileMenuOpen = False, openDropdown = None\<rparr>"

text \<open>
  What a handler of the component does when it is called: it calls one of the two
  setters with a value fixed when the closure was made, or it is the property
  \<^verbatim>\<open>onSearchOpen\<close> of the render that made it.
\<close>

datatype action =
    SetIsMobileMenuOpen bool
  | SetOpenDropdown "js_string option"
  | OnSearchOpen

text \<open>A setter call replaces the value of its cell.\<close>

fun apply_action :: "hooks \<Rightarrow> action \<Rightarrow> hooks" where
  "apply_action s (SetIsMobileMenuOpen b) = s\<lparr>isMobileMenuOpen := b\<rparr>"
| "apply_action s (SetOpenDropdown v) = s\<lparr>openDropdown := v\<rparr>"
| "apply_action s OnSearchOpen = s"

text \<open>The updates queued since the last render, applied in the order of the calls.\<close>

definition reduce_queue :: "hooks \<Rightarrow> action list \<Rightarrow> hooks" where
  "reduce_queue s q = foldl apply_action s q"

section \<open>The effect\<close>

record dom =
  body_overflow :: js_string

text \<open>The body of the effect (lines 20-24) and the cleanup it returns (lines 25-27).\<close>

definition effect_body :: "bool \<Rightarrow> 'a dom_scheme \<Rightarrow> 'a dom_scheme" where
  "effect_body isOpen d =
     (if isOpen then d\<lparr>body_overflow := ''hidden''\<rparr> else d\<lparr>body_overflow := ''unset''\<rparr>)"

definition effect_cleanup :: "'a dom_scheme \<Rightarrow> 'a dom_scheme" where
  "effect_cleanup d = d\<lparr>body_overflow := ''unset''\<rparr>"

text \<open>
  \<^verbatim>\<open>useEffect(..., [isMobileMenuOpen])\<close> at a render after the first: when the
  dependency differs from the one of the last run, the cleanup of the last run is
  called and then the body with the new value; otherwise nothing is called.
\<close>

definition run_effect :: "bool \<Rightarrow> bool \<Rightarrow> 'a dom_scheme \<Rightarrow> 'a dom_scheme" where
  "run_effect old new d = (if old = new then d else effect_body new (effect_cleanup d))"

section \<open>The component instance\<close>

text \<open>
  \<open>state\<close> holds the values the last render read, \<open>queue\<close> the setter calls made since,
  \<open>effect_dep\<close> the dependency with which the effect ran last.
\<close>

record navbar_instance =
  props :: navbar_props
  state :: hooks
  queue :: "action list"
  effect_dep :: bool

record runtime =
  component :: "navbar_instance option"
  document :: dom
  search_calls :: "(callback \<times> js_string) list"

text \<open>The first render and its commit: the initial state, and the effect runs.\<close>

definition mount :: "navbar_props \<Rightarrow> 'a runtime_scheme \<Rightarrow> 'a runtime_scheme option" where
  "mount p rt =
     (case component rt of
        Some _ \<Rightarrow> None
      | None \<Rightarrow> Some (rt\<lparr>
          component := Some \<lparr>props = p, state = init_hooks, queue = [],
            effect_dep = isMobileMenuOpen init_hooks\<rparr>,
          document := effect_body (isMobileMenuOpen init_hooks) (document rt)\<rparr>))"

text \<open>
  A call of a handler for the event property \<open>ev\<close>. A setter call is queued for the
  next render; the callback \<^verbatim>\<open>onSearchOpen\<close> of the last render is called at once, with
  the event as its argument (\<^verbatim>\<open>onClick={onSearchOpen}\<close>): the log takes the callback and
  the name of the event property.
\<close>

definition invoke :: "js_string \<Rightarrow> action \<Rightarrow> 'a runtime_scheme \<Rightarrow> 'a runtime_scheme option" where
  "invoke ev a rt =
     (case component rt of
        None \<Rightarrow> None
      | Some i \<Rightarrow>
          (case a of
             OnSearchOpen \<Rightarrow>
               Some (rt\<lparr>search_calls := search_calls rt @ [(onSearchOpen (props i), ev)]\<rparr>)
           | _ \<Rightarrow> Some (rt\<lparr>component := Some (i\<lparr>queue := queue i @ [a]\<rparr>)\<rparr>)))"

text \<open>
  A render with properties \<open>p\<close> and its commit: the queue is taken up, the effect is
  brought up to date.
\<close>

definition rerender :: "navbar_props \<Rightarrow> navbar_instance \<Rightarrow> 'a dom_scheme \<Rightarrow> navbar_instance \<times> 'a dom_scheme" where
  "rerender p i d =
     (let s = reduce_queue (state i) (queue i) in
      (\<lparr>props = p, state = s, queue = [], effect_dep = isMobileMenuOpen s\<rparr>,
       run_effect (effect_dep i) (isMobileMenuOpen s) d))"

definition flush :: "'a runtime_scheme \<Rightarrow> 'a runtime_scheme option" where
  "flush rt =
     (case component rt of
        None \<Rightarrow> None
      | Some i \<Rightarrow>
          (let (i', d') = rerender (props i) i (document rt)
           in Some (rt\<lparr>component := Some i', document := d'\<rparr>)))"

definition set_props :: "navbar_props \<Rightarrow> 'a runtime_scheme \<Rightarrow> 'a runtime_scheme option" where
  "set_props p rt =
     (case component rt of
        None \<Rightarrow> None
      | Some i \<Rightarrow>
          (let (i', d') = rerender p i (document rt)
           in Some (rt\<lparr>component := Some i', document := d'\<rparr>)))"

text \<open>Unmount: the cleanup of the last run of the effect is called.\<close>

definition unmount :: "'a runtime_scheme \<Rightarrow> 'a runtime_scheme option" where
  "unmount rt =
     (case component rt of
        None \<Rightarrow> None
      | Some i \<Rightarrow> Some (rt\<lparr>component := None, document := effect_cleanup (document rt)\<rparr>))"

text \<open>The operations as one step function over a datatype of events.\<close>

datatype rt_event =
    Mount navbar_props
  | Invoke js_string action
  | Flush
  | SetProps navbar_props
  | Unmount

fun rt_step :: "'a runtime_scheme \<Rightarrow> rt_event \<Rightarrow> 'a runtime_scheme option" where
  "rt_step rt (Mount p) = mount p rt"
| "rt_step rt (Invoke ev a) = invoke ev a rt"
| "rt_step rt Flush = flush rt"
| "rt_step rt (SetProps p) = set_props p rt"
| "rt_step rt Unmount = unmount rt"

fun rt_run :: "'a runtime_scheme \<Rightarrow> rt_event list \<Rightarrow> 'a runtime_scheme option" where
  "rt_run rt [] = Some rt"
| "rt_run rt (e # es) = (case rt_step rt e of None \<Rightarrow> None | Some rt' \<Rightarrow> rt_run rt' es)"

lemmas rt_ops [hook_defs] =
  mount_def invoke_def flush_def set_props_def unmount_def rerender_def
  run_effect_def effect_body_def effect_cleanup_def reduce_queue_def init_hooks_def

section \<open>The queue\<close>

lemma reduce_queue_Nil [simp]: "reduce_queue s [] = s"
  by (simp add: reduce_queue_def)

lemma reduce_queue_Cons [simp]: "reduce_queue s (a # q) = reduce_queue (apply_action s a) q"
  by (simp add: reduce_queue_def)

lemma reduce_queue_append [simp]:
  "reduce_queue s (q @ r) = reduce_queue (reduce_queue s q) r"
  by (simp add: reduce_queue_def)

text \<open>The last queued value of a cell is the one the render reads.\<close>

fun last_menu :: "action list \<Rightarrow> bool option" where
  "last_menu [] = None"
| "last_menu (SetIsMobileMenuOpen b # q) = (case last_menu q of None \<Rightarrow> Some b | Some c \<Rightarrow> Some c)"
| "last_menu (_ # q) = last_menu q"

fun last_dropdown :: "action list \<Rightarrow> js_string option option" where
  "last_dropdown [] = None"
| "last_dropdown (SetOpenDropdown v # q) = (case last_dropdown q of None \<Rightarrow> Some v | Some w \<Rightarrow> Some w)"
| "last_dropdown (_ # q) = last_dropdown q"

lemma isMobileMenuOpen_reduce_queue:
  "isMobileMenuOpen (reduce_queue s q) =
     (case last_menu q of None \<Rightarrow> isMobileMenuOpen s | Some b \<Rightarrow> b)"
  by (induction q arbitrary: s rule: last_menu.induct) (auto split: option.splits)

lemma openDropdown_reduce_queue:
  "openDropdown (reduce_queue s q) =
     (case last_dropdown q of None \<Rightarrow> openDropdown s | Some v \<Rightarrow> v)"
  by (induction q arbitrary: s rule: last_dropdown.induct) (auto split: option.splits)

text \<open>
  The state the next render reads has, for each of the two cells, the value of the
  last call of its setter since the last render, and the value the last render read
  if there was none.
\<close>

lemma reduce_queue_last_write:
  "reduce_queue s q =
     \<lparr>isMobileMenuOpen = (case last_menu q of None \<Rightarrow> isMobileMenuOpen s | Some b \<Rightarrow> b),
      openDropdown = (case last_dropdown q of None \<Rightarrow> openDropdown s | Some v \<Rightarrow> v)\<rparr>"
proof -
  have "(r::hooks) = \<lparr>isMobileMenuOpen = isMobileMenuOpen r, openDropdown = openDropdown r\<rparr>" for r
    by simp
  from this [of "reduce_queue s q"] show ?thesis
    by (simp only: isMobileMenuOpen_reduce_queue openDropdown_reduce_queue)
qed

text \<open>A queue without a call that opens the menu leaves a closed menu closed.\<close>

lemma reduce_queue_closed:
  "\<not> isMobileMenuOpen s \<Longrightarrow> SetIsMobileMenuOpen True \<notin> set q \<Longrightarrow>
   \<not> isMobileMenuOpen (reduce_queue s q)"
proof (induction q arbitrary: s)
  case Nil
  then show ?case by simp
next
  case (Cons a q)
  then show ?case by (cases a) auto
qed

section \<open>The effect and the scroll lock\<close>

lemma effect_body_overflow [simp]:
  "body_overflow (effect_body b d) = (if b then ''hidden'' else ''unset'')"
  by (simp add: effect_body_def)

lemma effect_cleanup_overflow [simp]: "body_overflow (effect_cleanup d) = ''unset''"
  by (simp add: effect_cleanup_def)

lemma run_effect_overflow:
  "body_overflow (run_effect old new d) =
     (if old = new then body_overflow d else if new then ''hidden'' else ''unset'')"
  by (simp add: run_effect_def)

text \<open>The document is its overflow: a write of the value it has changes nothing.\<close>

lemma dom_eqI: "body_overflow d' = body_overflow d \<Longrightarrow> (d'::dom) = d"
  by (cases d; cases d') simp

text \<open>
  The scroll-lock invariant: while the component is mounted the effect has run for
  the value of \<^verbatim>\<open>isMobileMenuOpen\<close> the last render read, and the overflow of the body
  is \<^verbatim>\<open>hidden\<close> exactly when that value is true, \<^verbatim>\<open>unset\<close> otherwise.
\<close>

definition lock_ok :: "navbar_instance \<Rightarrow> 'a dom_scheme \<Rightarrow> bool" where
  "lock_ok i d \<longleftrightarrow>
     effect_dep i = isMobileMenuOpen (state i) \<and>
     body_overflow d = (if isMobileMenuOpen (state i) then ''hidden'' else ''unset'')"

definition lock_inv :: "'a runtime_scheme \<Rightarrow> bool" where
  "lock_inv rt = (case component rt of None \<Rightarrow> True | Some i \<Rightarrow> lock_ok i (document rt))"

lemma rerender_lock_ok:
  "lock_ok i d \<Longrightarrow> rerender p i d = (i', d') \<Longrightarrow> lock_ok i' d'"
  by (auto simp: lock_ok_def rerender_def Let_def run_effect_overflow)

lemma mount_lock_inv: "mount p rt = Some rt' \<Longrightarrow> lock_inv rt'"
  by (auto simp: mount_def lock_inv_def lock_ok_def init_hooks_def split: option.splits)

lemma invoke_lock_inv: "lock_inv rt \<Longrightarrow> invoke ev a rt = Some rt' \<Longrightarrow> lock_inv rt'"
  by (auto simp: invoke_def lock_inv_def lock_ok_def split: option.splits action.splits)

lemma flush_lock_inv: "lock_inv rt \<Longrightarrow> flush rt = Some rt' \<Longrightarrow> lock_inv rt'"
  by (auto simp: flush_def lock_inv_def split: option.splits prod.splits
      dest: rerender_lock_ok)

lemma set_props_lock_inv: "lock_inv rt \<Longrightarrow> set_props p rt = Some rt' \<Longrightarrow> lock_inv rt'"
  by (auto simp: set_props_def lock_inv_def split: option.splits prod.splits
      dest: rerender_lock_ok)

lemma unmount_lock_inv: "unmount rt = Some rt' \<Longrightarrow> lock_inv rt'"
  by (auto simp: unmount_def lock_inv_def split: option.splits)

lemma rt_step_lock_inv: "lock_inv rt \<Longrightarrow> rt_step rt e = Some rt' \<Longrightarrow> lock_inv rt'"
  by (cases e)
    (auto intro: mount_lock_inv invoke_lock_inv flush_lock_inv set_props_lock_inv
      unmount_lock_inv)

lemma rt_run_lock_inv: "lock_inv rt \<Longrightarrow> rt_run rt es = Some rt' \<Longrightarrow> lock_inv rt'"
proof (induction es arbitrary: rt)
  case Nil
  then show ?case by simp
next
  case (Cons e es)
  then obtain rt1 where s: "rt_step rt e = Some rt1" and r: "rt_run rt1 es = Some rt'"
    by (auto split: option.splits)
  from Cons.prems(1) s have "lock_inv rt1" by (rule rt_step_lock_inv)
  then show ?case using r by (rule Cons.IH)
qed

lemma lock_inv_unmounted: "component rt = None \<Longrightarrow> lock_inv rt"
  by (simp add: lock_inv_def)

lemma rt_run_append:
  "rt_run rt (es @ fs) = (case rt_run rt es of None \<Rightarrow> None | Some rt' \<Rightarrow> rt_run rt' fs)"
  by (induction es arbitrary: rt) (auto split: option.splits)

end
