(* ===== verification/Navbar_Render.thy ===== *)
theory Navbar_Render
  imports Nav_Items View_Tree Navbar_Hooks
begin

text \<open>
  The element tree \<^verbatim>\<open>Navbar\<close> returns (lines 55-268 of
  \<^verbatim>\<open>src/components/home/Navbar.tsx\<close>), as a function of the properties and of the
  hook state the render reads. One definition per part of the JSX, in the order of
  the source, composed as the JSX nests them; every property of every element is
  there, in the order of the source. A handler is the \<open>action\<close> its closure performs:
  the arrow function \<^verbatim>\<open>() => setIsMobileMenuOpen(!isMobileMenuOpen)\<close> made by a render
  that read \<open>b\<close> is \<open>SetIsMobileMenuOpen (\<not> b)\<close>. An array child
  (\<^verbatim>\<open>items.map(...)\<close>) is spliced into the list of children.

  The lemmas give, for each part, its handlers, the ones a user can reach at each
  width, its links and its sub-menu panels.
\<close>

section \<open>Components, properties, literals\<close>

datatype component = Link | HistoryPopup | Lucide icon

type_synonym view = "(component, action) vnode"

abbreviation cls :: "js_string \<Rightarrow> js_string \<times> action pval" where
  "cls c \<equiv> (''className'', PStr c)"

abbreviation str :: "js_string \<Rightarrow> js_string \<Rightarrow> js_string \<times> action pval" where
  "str k v \<equiv> (k, PStr v)"

abbreviation on :: "js_string \<Rightarrow> action \<Rightarrow> js_string \<times> action pval" where
  "on k a \<equiv> (k, PHandler a)"

text \<open>A property whose value may be \<^verbatim>\<open>undefined\<close>.\<close>

definition opt :: "js_string \<Rightarrow> js_string option \<Rightarrow> js_string \<times> action pval" where
  "opt k v = (k, case v of None \<Rightarrow> PUndefined | Some s \<Rightarrow> PStr s)"

lemma handlers_opt [simp]: "handlers (opt k v # ps) = handlers ps"
  by (cases v) (simp_all add: opt_def)

lemma class_of_opt [simp]: "k \<noteq> ''className'' \<Longrightarrow> class_of (opt k v # ps) = class_of ps"
  by (simp add: opt_def)

lemma str_prop_opt [simp]:
  "str_prop k' (opt k v # ps) = (if k' = k then v else str_prop k' ps)"
  by (cases v) (simp_all add: opt_def)

text \<open>The texts of the source that are not ASCII, as the UTF-8 bytes of the literals.\<close>

definition aria_menu :: js_string where
  "aria_menu = [CHR 0xE8, CHR 0x8F, CHR 0x9C, CHR 0xE5, CHR 0x8D, CHR 0x95]"

definition aria_search :: js_string where
  "aria_search = [CHR 0xE6, CHR 0x90, CHR 0x9C, CHR 0xE7, CHR 0xB4, CHR 0xA2]"

definition brand_navbar :: js_string where
  "brand_navbar = [CHR 0xE5, CHR 0xB0, CHR 0x8F, CHR 0xE9, CHR 0xA3, CHR 0x9E,
     CHR 0xE6, CHR 0x9C, CHR 0xBA]"

definition brand_sidebar :: js_string where
  "brand_sidebar = [CHR 0xE5, CHR 0xA3, CHR 0xB3, CHR 0xE5, CHR 0x84, CHR 0xBF]"

definition footer_text :: js_string where
  "footer_text = [CHR 0xC2, CHR 0xA9] @ '' 2026 '' @ brand_sidebar @ '' '' @
     [CHR 0xC2, CHR 0xB7] @ '' '' @
     [CHR 0xE8, CHR 0xBF, CHR 0x99, CHR 0xE5, CHR 0xB0, CHR 0xB1, CHR 0xE6, CHR 0x98, CHR 0xAF,
      CHR 0xE4, CHR 0xB8, CHR 0xAA] @ brand_sidebar"

section \<open>The navigation bar\<close>

text \<open>The hamburger button (lines 68-78).\<close>

definition render_hamburger :: "hooks \<Rightarrow> view" where
  "render_hamburger st =
     VElem (Html ''button'')
       [on ''onClick'' (SetIsMobileMenuOpen (\<not> isMobileMenuOpen st)),
        cls ''md:hidden p-2 hover:bg-white/10 rounded-lg transition-colors'',
        str ''aria-label'' aria_menu]
       [if isMobileMenuOpen st
        then VElem (Comp (Lucide X)) [cls ''w-6 h-6 text-white''] []
        else VElem (Comp (Lucide Menu)) [cls ''w-6 h-6 text-white''] []]"

text \<open>The logo link (lines 81-94).\<close>

definition render_logo :: view where
  "render_logo =
     VElem (Comp Link)
       [str ''href'' ''/'',
        on ''onClick'' (SetIsMobileMenuOpen False),
        cls ''flex items-center gap-1'']
       [VElem (Html ''img'')
          [cls ''w-8 h-8 md:w-10 md:h-10'', str ''src'' ''/logo.png'', str ''alt'' ''logo''] [],
        VElem (Html ''span'')
          [cls ''text-red-600 text-xl md:text-2xl lg:text-3xl font-bold tracking-tight hover:text-red-500 transition-colors'']
          [VText brand_navbar]]"

text \<open>A link of a sub-menu panel (lines 131-137).\<close>

definition render_dropdown_child :: "nav_child \<Rightarrow> view" where
  "render_dropdown_child child =
     VElem (Comp Link)
       [str ''key'' (child_href child),
        str ''href'' (child_href child),
        cls ''block px-4 py-2.5 text-sm text-gray-300 hover:text-white hover:bg-red-600/20 transition-colors'']
       [VText (child_label child)]"

text \<open>The sub-menu panel of an entry (lines 126-140), rendered when the entry is open.\<close>

definition render_dropdown_panel :: "nav_item \<Rightarrow> view" where
  "render_dropdown_panel item =
     VElem (Html ''div'') [cls ''absolute top-full left-0 pt-1'']
       [VElem (Html ''div'')
          [cls ''py-2 bg-zinc-900 rounded-lg shadow-2xl border border-zinc-800 min-w-[140px] overflow-hidden'']
          (VElem (Html ''div'') [cls ''absolute top-1 left-0 right-0 h-0.5 bg-red-600''] []
           # map render_dropdown_child (children_of item))]"

text \<open>The arrow of a sub-menu trigger (lines 108-122).\<close>

definition render_chevron :: "hooks \<Rightarrow> nav_item \<Rightarrow> view" where
  "render_chevron st item =
     VElem (Html ''svg'')
       [cls (''w-3 h-3 transition-transform duration-200 '' @
          (if openDropdown st = Some (label item) then ''rotate-180'' else '''')),
        str ''fill'' ''none'', str ''viewBox'' ''0 0 24 24'', str ''stroke'' ''currentColor'']
       [VElem (Html ''path'')
          [str ''strokeLinecap'' ''round'', str ''strokeLinejoin'' ''round'',
           (''strokeWidth'', PNum 2), str ''d'' ''M19 9l-7 7-7-7''] []]"

text \<open>
  One entry of the desktop list (lines 99-152): a trigger with its panel for an entry
  with a sub-menu, a link otherwise.
\<close>

definition render_desktop_item :: "hooks \<Rightarrow> nav_item \<Rightarrow> view" where
  "render_desktop_item st item =
     (if has_children item then
        VElem (Html ''div'')
          [str ''key'' (label item),
           cls ''relative group'',
           on ''onMouseEnter'' (SetOpenDropdown (Some (label item))),
           on ''onMouseLeave'' (SetOpenDropdown None)]
          [VElem (Html ''button'')
             [cls ''text-gray-400 hover:text-white transition-colors text-sm font-medium flex items-center gap-1 py-2'']
             [VText (label item), render_chevron st item],
           if openDropdown st = Some (label item) then render_dropdown_panel item else VFalse]
      else
        VElem (Comp Link)
          [opt ''key'' (href item),
           opt ''href'' (href item),
           opt ''target'' (link_target item),
           cls ''text-gray-400 hover:text-white transition-colors text-sm font-medium'']
          [VText (label item)])"

text \<open>The desktop list (lines 97-154).\<close>

definition render_desktop_nav :: "hooks \<Rightarrow> view" where
  "render_desktop_nav st =
     VElem (Html ''div'') [cls ''hidden md:flex items-center space-x-6'']
       (map (render_desktop_item st) desktop_items)"

text \<open>The search button (lines 160-178).\<close>

definition render_search :: view where
  "render_search =
     VElem (Html ''button'')
       [on ''onClick'' OnSearchOpen,
        cls ''p-2 hover:bg-white/10 rounded-full transition-colors'',
        str ''aria-label'' aria_search]
       [VElem (Html ''svg'')
          [cls ''w-5 h-5 md:w-6 md:h-6 text-white'',
           str ''fill'' ''none'', str ''viewBox'' ''0 0 24 24'', str ''stroke'' ''currentColor'']
          [VElem (Html ''path'')
             [str ''strokeLinecap'' ''round'', str ''strokeLinejoin'' ''round'',
              (''strokeWidth'', PNum 2),
              str ''d'' ''M21 21l-6-6m2-5a7 7 0 11-14 0 7 7 0 0114 0z''] []]]"

text \<open>The \<^verbatim>\<open><nav>\<close> element (lines 57-184).\<close>

definition render_nav :: "navbar_props \<Rightarrow> hooks \<Rightarrow> view" where
  "render_nav p st =
     VElem (Html ''nav'')
       [cls (''fixed top-0 left-0 right-0 z-50 transition-all duration-300 '' @
          (if scrolled p then ''bg-black''
           else ''bg-gradient-to-b from-black/80 to-transparent''))]
       [VElem (Html ''div'')
          [cls ''px-4 md:px-12 py-3 md:py-4 flex items-center justify-between'']
          [VElem (Html ''div'') [cls ''flex items-center space-x-2 md:space-x-8'']
             [render_hamburger st, render_logo, render_desktop_nav st],
           VElem (Html ''div'') [cls ''flex items-center space-x-1 md:space-x-2'']
             [render_search, VElem (Comp HistoryPopup) [] []]]]"

section \<open>The mobile sidebar\<close>

text \<open>A link of a sub-menu in the sidebar (lines 230-239).\<close>

definition render_sidebar_child :: "nav_child \<Rightarrow> view" where
  "render_sidebar_child child =
     VElem (Comp Link)
       [str ''key'' (child_href child),
        str ''href'' (child_href child),
        on ''onClick'' (SetIsMobileMenuOpen False),
        cls ''flex items-center space-x-3 px-4 py-2 pl-12 rounded-lg text-gray-300 hover:text-white hover:bg-white/10 transition-all duration-200'']
       [VElem (Html ''span'') [cls ''text-sm font-medium''] [VText (child_label child)]]"

text \<open>One entry of the sidebar list (lines 218-256).\<close>

definition render_sidebar_item :: "nav_item \<Rightarrow> view" where
  "render_sidebar_item item =
     (if has_children item then
        VElem (Html ''div'') [str ''key'' (label item), cls ''space-y-1'']
          (VElem (Html ''div'') [cls ''flex items-center space-x-3 px-4 py-3 text-gray-400'']
             [VElem (Comp (Lucide (icon item))) [cls ''w-5 h-5''] [],
              VElem (Html ''span'') [cls ''text-base font-medium''] [VText (label item)]]
           # map render_sidebar_child (children_of item))
      else
        VElem (Comp Link)
          [opt ''key'' (href item),
           opt ''href'' (href item),
           opt ''target'' (link_target item),
           on ''onClick'' (SetIsMobileMenuOpen False),
           cls ''flex items-center space-x-3 px-4 py-3 rounded-lg text-gray-300 hover:text-white hover:bg-white/10 transition-all duration-200 group'']
          [VElem (Comp (Lucide (icon item)))
             [cls ''w-5 h-5 text-gray-400 group-hover:text-red-500 transition-colors''] [],
           VElem (Html ''span'') [cls ''text-base font-medium''] [VText (label item)]])"

text \<open>The backdrop (lines 195-198).\<close>

definition render_backdrop :: view where
  "render_backdrop =
     VElem (Html ''div'')
       [cls ''absolute inset-0 bg-black/80 backdrop-blur-sm'',
        on ''onClick'' (SetIsMobileMenuOpen False)] []"

text \<open>The mobile list (lines 217-257): one entry for every element of \<^verbatim>\<open>navItems\<close>.\<close>

definition render_sidebar_list :: view where
  "render_sidebar_list =
     VElem (Html ''nav'') [cls ''p-4 space-y-2''] (map render_sidebar_item navItems)"

text \<open>The sliding panel with its head, its list and its foot (lines 201-265).\<close>

definition render_sidebar_panel :: "hooks \<Rightarrow> view" where
  "render_sidebar_panel st =
     VElem (Html ''div'')
       [cls (''absolute top-0 left-0 h-full w-[280px] bg-gradient-to-b from-gray-900 to-black shadow-2xl transform transition-transform duration-300 ease-out '' @
          (if isMobileMenuOpen st then ''translate-x-0'' else ''-translate-x-full''))]
       [VElem (Html ''div'') [cls ''p-6 border-b border-gray-800'']
          [VElem (Html ''div'') [cls ''flex items-center gap-2'']
             [VElem (Html ''img'') [cls ''w-10 h-10'', str ''src'' ''/logo.png'', str ''alt'' ''logo''] [],
              VElem (Html ''h2'') [cls ''text-red-600 text-2xl font-bold tracking-tight'']
                [VText brand_sidebar]]],
        render_sidebar_list,
        VElem (Html ''div'') [cls ''absolute bottom-0 left-0 right-0 p-6 border-t border-gray-800'']
          [VElem (Html ''p'') [cls ''text-xs text-gray-500 text-center''] [VText footer_text]]]"

text \<open>The sidebar layer (lines 187-266).\<close>

definition render_sidebar :: "hooks \<Rightarrow> view" where
  "render_sidebar st =
     VElem (Html ''div'')
       [cls (''md:hidden fixed inset-0 z-[60] transition-opacity duration-300 '' @
          (if isMobileMenuOpen st then ''opacity-100 pointer-events-auto''
           else ''opacity-0 pointer-events-none''))]
       [render_backdrop, render_sidebar_panel st]"

section \<open>The component\<close>

text \<open>What \<^verbatim>\<open>Navbar\<close> returns (lines 55-268): a fragment of the bar and the sidebar.\<close>

definition render :: "navbar_props \<Rightarrow> hooks \<Rightarrow> view" where
  "render p st = VElem Fragment [] [render_nav p st, render_sidebar st]"

lemmas render_parts [render_defs] =
  render_hamburger_def render_logo_def render_dropdown_child_def render_dropdown_panel_def
  render_chevron_def render_desktop_item_def render_desktop_nav_def render_search_def
  render_nav_def render_sidebar_child_def render_sidebar_item_def render_backdrop_def
  render_sidebar_list_def render_sidebar_panel_def render_sidebar_def render_def

lemmas sidebar_panel_defs = render_sidebar_panel_def render_sidebar_list_def

lemmas class_eval [class_simps] =
  has_class_def class_tokens_def display_none_def invisible_def pointer_events_def class_of_def
  str_prop_def

end
