(* ===== verification/Navbar_View.thy ===== *)
theory Navbar_View
  imports Navbar_Render
begin

text \<open>
  What the tree of \<open>Navbar_Render\<close> contains, part by part and then for the whole
  component: every handler (\<open>all_handlers\<close>), the handlers a pointer can fire at a
  width (\<open>reachable_handlers\<close>, \<open>interactive\<close>), the links with their targets and
  handlers (\<open>links\<close>), the links that can be seen (\<open>shown_links\<close>), the sub-menu
  panels (\<open>panels\<close>), the components and icons it instantiates (\<open>comps\<close>,
  \<open>icons\<close>) and its texts. The lemma for a part uses the lemmas of the parts it
  contains, so each class string of the source is read once. The last section
  holds the properties of the tree: the targets of the links, the handlers of the
  sidebar, the mobile-only entry, the external entry, the gating of the sub-menu,
  the background, the icons, the texts and the history popup.
\<close>

section \<open>Links\<close>

text \<open>
  What matters of a link: its \<^verbatim>\<open>href\<close>, its \<^verbatim>\<open>target\<close> and its handlers. \<open>links\<close> are the
  links of a tree, \<open>shown_links\<close> the ones that can be seen at a width.
\<close>

type_synonym link = "js_string option \<times> js_string option \<times> (js_string \<times> action) list"

definition link_summary :: "action props \<times> view list \<Rightarrow> link" where
  "link_summary e = (str_prop ''href'' (fst e), str_prop ''target'' (fst e), handlers (fst e))"

definition links :: "view \<Rightarrow> link list" where
  "links n = map link_summary (elems (Comp Link) n)"

definition shown_links :: "viewport \<Rightarrow> view \<Rightarrow> link list" where
  "shown_links vp n = map link_summary (shown vp (Comp Link) n)"

text \<open>The \<^verbatim>\<open>href\<close> of every link of a tree, and of the links that can be seen at a width.\<close>

definition link_hrefs :: "view \<Rightarrow> js_string option list" where
  "link_hrefs n = map fst (links n)"

definition shown_hrefs :: "viewport \<Rightarrow> view \<Rightarrow> js_string option list" where
  "shown_hrefs vp n = map fst (shown_links vp n)"

text \<open>The links that open a new browsing context.\<close>

definition blank_hrefs :: "view \<Rightarrow> js_string option list" where
  "blank_hrefs n = map fst (filter (\<lambda>l. fst (snd l) = Some ''_blank'') (links n))"

text \<open>The sub-menu panels of a tree: the elements placed below their trigger.\<close>

definition panels :: "view \<Rightarrow> (action props \<times> view list) list" where
  "panels n = filter (\<lambda>e. has_class ''top-full'' (class_of (fst e))) (elems (Html ''div'') n)"

text \<open>The handler that closes the mobile menu, and the handlers of a sub-menu trigger.\<close>

abbreviation close_menu :: "js_string \<times> action" where
  "close_menu \<equiv> (''onClick'', SetIsMobileMenuOpen False)"

definition trigger_handlers :: "nav_item \<Rightarrow> (js_string \<times> action) list" where
  "trigger_handlers item =
     (if has_children item
      then [(''onMouseEnter'', SetOpenDropdown (Some (label item))),
            (''onMouseLeave'', SetOpenDropdown None)]
      else [])"

lemmas plain_eval = plain_class_def class_tokens_def

section \<open>Every handler\<close>

lemma ah_hamburger:
  "all_handlers (render_hamburger st) = [(''onClick'', SetIsMobileMenuOpen (\<not> isMobileMenuOpen st))]"
  by (simp add: render_hamburger_def)

lemma ah_logo: "all_handlers render_logo = [close_menu]"
  by (simp add: render_logo_def)

lemma ah_search: "all_handlers render_search = [(''onClick'', OnSearchOpen)]"
  by (simp add: render_search_def)

lemma ah_dropdown_panel: "all_handlers (render_dropdown_panel item) = []"
  by (simp add: render_dropdown_panel_def render_dropdown_child_def)

lemma ah_desktop_item: "all_handlers (render_desktop_item st item) = trigger_handlers item"
  by (simp add: render_desktop_item_def render_chevron_def ah_dropdown_panel
      trigger_handlers_def)

lemma ah_desktop_nav:
  "all_handlers (render_desktop_nav st) = concat (map trigger_handlers desktop_items)"
  by (simp add: render_desktop_nav_def comp_def ah_desktop_item)

lemma ah_nav:
  "all_handlers (render_nav p st) =
     (''onClick'', SetIsMobileMenuOpen (\<not> isMobileMenuOpen st)) # close_menu #
     concat (map trigger_handlers desktop_items) @ [(''onClick'', OnSearchOpen)]"
  by (simp add: render_nav_def ah_hamburger ah_logo ah_desktop_nav ah_search)

lemma ah_backdrop: "all_handlers render_backdrop = [close_menu]"
  by (simp add: render_backdrop_def)

lemma ah_sidebar_child: "all_handlers (render_sidebar_child c) = [close_menu]"
  by (simp add: render_sidebar_child_def)

text \<open>The number of links an entry makes in the sidebar.\<close>

definition sidebar_links :: "nav_item \<Rightarrow> nat" where
  "sidebar_links item = (if has_children item then length (children_of item) else 1)"

lemma ah_sidebar_item:
  "all_handlers (render_sidebar_item item) = replicate (sidebar_links item) close_menu"
  by (simp add: render_sidebar_item_def ah_sidebar_child comp_def map_replicate_const
      sidebar_links_def)

lemma ah_sidebar_panel:
  "all_handlers (render_sidebar_panel st) =
     concat (map (\<lambda>item. replicate (sidebar_links item) close_menu) navItems)"
  by (simp add: sidebar_panel_defs comp_def ah_sidebar_item)

lemma ah_sidebar:
  "all_handlers (render_sidebar st) =
     close_menu # concat (map (\<lambda>item. replicate (sidebar_links item) close_menu) navItems)"
  by (simp add: render_sidebar_def ah_backdrop ah_sidebar_panel)

lemma set_ah_sidebar: "set (all_handlers (render_sidebar st)) = {close_menu}"
  by (auto simp: ah_sidebar)

text \<open>The backdrop and the nine links: ten handlers, all the same.\<close>

lemma sidebar_links_navItems: "map sidebar_links navItems = [1, 1, 1, 1, 1, 1, 2, 1]"
  by (simp add: navItems_def sidebar_links_def has_children_def children_of_def)

lemma ah_sidebar_eq: "all_handlers (render_sidebar st) = replicate 10 close_menu"
proof -
  have "concat (map (\<lambda>item. replicate (sidebar_links item) close_menu) navItems) =
      concat (map (\<lambda>n. replicate n close_menu) (map sidebar_links navItems))"
    by (simp add: comp_def)
  then show ?thesis
    unfolding ah_sidebar sidebar_links_navItems by (simp add: numeral_eq_Suc)
qed

section \<open>The handlers a pointer can fire\<close>

lemma rh_hamburger:
  "reachable_handlers vp pe (render_hamburger st) =
     (if vp = Mobile \<and> pe then [(''onClick'', SetIsMobileMenuOpen (\<not> isMobileMenuOpen st))] else [])"
  by (cases vp) (simp_all add: render_hamburger_def reachable_handlers_elem class_simps plain_eval)

lemma rh_logo: "reachable_handlers vp pe render_logo = (if pe then [close_menu] else [])"
  by (simp add: render_logo_def plain_eval)

lemma rh_search:
  "reachable_handlers vp pe render_search = (if pe then [(''onClick'', OnSearchOpen)] else [])"
  by (simp add: render_search_def plain_eval)

lemma rh_dropdown_panel: "reachable_handlers vp pe (render_dropdown_panel item) = []"
  by (simp add: render_dropdown_panel_def render_dropdown_child_def plain_eval)

lemma rh_chevron: "reachable_handlers vp pe (render_chevron st item) = []"
  by (cases "openDropdown st = Some (label item)") (simp_all add: render_chevron_def plain_eval)

lemma rh_desktop_item:
  "reachable_handlers vp pe (render_desktop_item st item) =
     (if pe then trigger_handlers item else [])"
  by (simp add: render_desktop_item_def rh_chevron rh_dropdown_panel plain_eval
      trigger_handlers_def)

lemma rh_desktop_nav:
  "reachable_handlers vp pe (render_desktop_nav st) =
     (if vp = Desktop \<and> pe then concat (map trigger_handlers desktop_items) else [])"
proof (cases vp)
  case Mobile
  then show ?thesis
    by (simp add: render_desktop_nav_def reachable_handlers_elem class_simps)
next
  case Desktop
  then show ?thesis
    by (simp add: render_desktop_nav_def reachable_handlers_elem class_simps comp_def
        rh_desktop_item)
qed

lemma rh_nav:
  "reachable_handlers vp True (render_nav p st) =
     (case vp of
        Mobile \<Rightarrow> [(''onClick'', SetIsMobileMenuOpen (\<not> isMobileMenuOpen st)), close_menu,
                   (''onClick'', OnSearchOpen)]
      | Desktop \<Rightarrow> close_menu # concat (map trigger_handlers desktop_items) @
                   [(''onClick'', OnSearchOpen)])"
  by (cases vp; cases "scrolled p")
    (simp_all add: render_nav_def rh_hamburger rh_logo rh_desktop_nav rh_search plain_eval)

lemma rh_backdrop: "reachable_handlers vp pe render_backdrop = (if pe then [close_menu] else [])"
  by (simp add: render_backdrop_def plain_eval)

lemma rh_sidebar_child:
  "reachable_handlers vp pe (render_sidebar_child c) = (if pe then [close_menu] else [])"
  by (simp add: render_sidebar_child_def plain_eval)

lemma rh_sidebar_item:
  "reachable_handlers vp pe (render_sidebar_item item) =
     (if pe then replicate (sidebar_links item) close_menu else [])"
  by (simp add: render_sidebar_item_def rh_sidebar_child plain_eval comp_def
      map_replicate_const sidebar_links_def)

lemma rh_sidebar_panel:
  "reachable_handlers vp pe (render_sidebar_panel st) =
     (if pe then concat (map (\<lambda>item. replicate (sidebar_links item) close_menu) navItems)
      else [])"
  by (cases "isMobileMenuOpen st")
    (simp_all add: sidebar_panel_defs rh_sidebar_item plain_eval comp_def)

text \<open>
  The sidebar layer is hidden from the breakpoint on and takes no pointer events
  while the menu is closed.
\<close>

lemma rh_sidebar:
  "reachable_handlers vp True (render_sidebar st) =
     (if vp = Mobile \<and> isMobileMenuOpen st
      then close_menu # concat (map (\<lambda>item. replicate (sidebar_links item) close_menu) navItems)
      else [])"
  by (cases vp; cases "isMobileMenuOpen st")
    (simp_all add: render_sidebar_def reachable_handlers_elem class_simps rh_backdrop
      rh_sidebar_panel)

text \<open>The handlers a user can fire in the whole component.\<close>

lemma interactive_render:
  "interactive vp (render p st) =
     (case vp of
        Mobile \<Rightarrow>
          [(''onClick'', SetIsMobileMenuOpen (\<not> isMobileMenuOpen st)), close_menu,
           (''onClick'', OnSearchOpen)] @
          (if isMobileMenuOpen st
           then close_menu #
             concat (map (\<lambda>item. replicate (sidebar_links item) close_menu) navItems)
           else [])
      | Desktop \<Rightarrow>
          close_menu # concat (map trigger_handlers desktop_items) @
          [(''onClick'', OnSearchOpen)])"
  by (cases vp) (simp_all add: interactive_def render_def rh_nav rh_sidebar)

lemma set_interactive_mobile:
  "set (interactive Mobile (render p st)) =
     {(''onClick'', SetIsMobileMenuOpen (\<not> isMobileMenuOpen st)), close_menu,
      (''onClick'', OnSearchOpen)}"
  by (auto simp: interactive_render)

lemma set_interactive_desktop:
  "set (interactive Desktop (render p st)) =
     {close_menu, (''onClick'', OnSearchOpen)} \<union>
     (\<Union>item \<in> set desktop_items. set (trigger_handlers item))"
  by (auto simp: interactive_render)

section \<open>What a pointer reaches\<close>

text \<open>
  The bar is a layer at level 50 that does not cover the window; the sidebar layer is
  at level 60 and covers it, displayed and taking pointer events exactly below the
  breakpoint while the menu is open.
\<close>

lemma z_index_nav: "z_index (root_class (render_nav p st)) = 50"
  by (cases "scrolled p") (simp_all add: render_nav_def z_eval)

lemma blocks_nav: "blocks vp (render_nav p st) = None"
  by (cases "scrolled p") (simp_all add: render_nav_def z_eval)

lemma blocks_sidebar:
  "blocks vp (render_sidebar st) = (if vp = Mobile \<and> isMobileMenuOpen st then Some 60 else None)"
  by (cases vp; cases "isMobileMenuOpen st")
    (simp_all add: render_sidebar_def z_eval display_none_def pointer_events_def)

lemma covered_render:
  "covered vp [render_nav p st, render_sidebar st] (render_nav p st) \<longleftrightarrow>
     vp = Mobile \<and> isMobileMenuOpen st"
  "\<not> covered vp [render_nav p st, render_sidebar st] (render_sidebar st)"
proof -
  have "z_index (root_class (render_sidebar st)) = 60"
    by (cases "isMobileMenuOpen st") (simp_all add: render_sidebar_def z_eval)
  then show "covered vp [render_nav p st, render_sidebar st] (render_nav p st) \<longleftrightarrow>
      vp = Mobile \<and> isMobileMenuOpen st"
    and "\<not> covered vp [render_nav p st, render_sidebar st] (render_sidebar st)"
    by (simp_all add: covered_def blocks_nav blocks_sidebar z_index_nav)
qed

text \<open>While the menu is open below the breakpoint a pointer reaches the sidebar layer
  only; otherwise it reaches whatever can be fired.\<close>

lemma pointer_handlers_render:
  "pointer_handlers vp (render p st) =
     (if vp = Mobile \<and> isMobileMenuOpen st then interactive vp (render_sidebar st)
      else interactive vp (render p st))"
  by (simp add: render_def covered_render interactive_def)

lemma set_pointer_handlers_open:
  "isMobileMenuOpen st \<Longrightarrow> set (pointer_handlers Mobile (render p st)) = {close_menu}"
  by (auto simp: pointer_handlers_render interactive_def rh_sidebar)

section \<open>The links of each part\<close>

text \<open>The link an entry or a sub-entry makes, with the handlers \<open>hs\<close> of the list it is in.\<close>

definition child_link :: "(js_string \<times> action) list \<Rightarrow> nav_child \<Rightarrow> link" where
  "child_link hs c = (Some (child_href c), None, hs)"

definition item_links :: "(js_string \<times> action) list \<Rightarrow> nav_item \<Rightarrow> link list" where
  "item_links hs item =
     (if has_children item then map (child_link hs) (children_of item)
      else [(href item, link_target item, hs)])"

lemmas links_eval = links_def link_summary_def

lemma links_hamburger: "links (render_hamburger st) = []"
  by (simp add: links_eval render_hamburger_def)

lemma links_logo: "links render_logo = [(Some ''/'', None, [close_menu])]"
  by (simp add: links_eval render_logo_def)

lemma links_search: "links render_search = []"
  by (simp add: links_eval render_search_def)

lemma links_dropdown_panel:
  "links (render_dropdown_panel item) = map (child_link []) (children_of item)"
  by (simp add: links_eval render_dropdown_panel_def render_dropdown_child_def comp_def
      child_link_def)

lemma links_desktop_item:
  "links (render_desktop_item st item) =
     (if has_children item \<and> openDropdown st \<noteq> Some (label item) then []
      else item_links [] item)"
  using links_dropdown_panel [of item]
  by (simp add: links_eval render_desktop_item_def render_chevron_def item_links_def)

lemma links_desktop_nav:
  "links (render_desktop_nav st) =
     concat (map (\<lambda>item. links (render_desktop_item st item)) desktop_items)"
  by (simp add: links_eval render_desktop_nav_def comp_def map_concat)

lemma links_nav:
  "links (render_nav p st) =
     (Some ''/'', None, [close_menu]) #
     concat (map (\<lambda>item. links (render_desktop_item st item)) desktop_items)"
  using links_hamburger [of st] links_logo links_desktop_nav [of st] links_search
  by (simp add: links_eval render_nav_def)

lemma links_sidebar_item: "links (render_sidebar_item item) = item_links [close_menu] item"
  by (simp add: links_eval render_sidebar_item_def render_sidebar_child_def comp_def
      item_links_def child_link_def)

lemma links_sidebar_panel:
  "links (render_sidebar_panel st) = concat (map (item_links [close_menu]) navItems)"
  using links_sidebar_item
  by (simp add: links_eval sidebar_panel_defs comp_def map_concat)

lemma links_sidebar:
  "links (render_sidebar st) = concat (map (item_links [close_menu]) navItems)"
  using links_sidebar_panel [of st]
  by (simp add: links_eval render_sidebar_def render_backdrop_def)

lemma links_render:
  "links (render p st) = links (render_nav p st) @ links (render_sidebar st)"
  by (simp add: links_eval render_def)

section \<open>The links that can be seen\<close>

lemma shown_links_Nil: "links n = [] \<Longrightarrow> shown_links vp n = []"
  by (simp add: links_def shown_links_def shown_Nil)

lemma shown_links_plain: "all_plain n \<Longrightarrow> shown_links vp n = links n"
  by (simp add: links_def shown_links_def shown_all_plain)

lemma all_plain_logo: "all_plain render_logo"
  by (simp add: render_logo_def plain_eval)

lemma all_plain_desktop_item: "all_plain (render_desktop_item st item)"
  by (cases "openDropdown st = Some (label item)")
    (simp_all add: render_desktop_item_def render_chevron_def render_dropdown_panel_def
      render_dropdown_child_def plain_eval list_all_iff)

lemma all_plain_sidebar_item: "all_plain (render_sidebar_item item)"
  by (simp add: render_sidebar_item_def render_sidebar_child_def plain_eval list_all_iff)

lemma all_plain_sidebar_panel: "all_plain (render_sidebar_panel st)"
  by (cases "isMobileMenuOpen st")
    (simp_all add: sidebar_panel_defs all_plain_sidebar_item plain_eval list_all_iff)

lemma shown_links_desktop_nav:
  "shown_links vp (render_desktop_nav st) =
     (if vp = Desktop then links (render_desktop_nav st) else [])"
  by (cases vp)
    (simp_all add: shown_links_def links_def render_desktop_nav_def shown_elem class_simps
      comp_def shown_all_plain [OF all_plain_desktop_item])

lemma shown_links_nav:
  "shown_links vp (render_nav p st) =
     (Some ''/'', None, [close_menu]) #
     (if vp = Desktop then links (render_desktop_nav st) else [])"
proof -
  have "shown vp (Comp Link) (render_hamburger st) = []"
    using links_hamburger [of st] by (simp add: links_def shown_Nil)
  moreover have "shown vp (Comp Link) render_search = []"
    using links_search by (simp add: links_def shown_Nil)
  moreover have "shown vp (Comp Link) render_logo = elems (Comp Link) render_logo"
    by (rule shown_all_plain [OF all_plain_logo])
  ultimately show ?thesis
    using shown_links_desktop_nav [of vp st] links_logo
    by (cases "scrolled p") (simp_all add: shown_links_def links_def render_nav_def plain_eval)
qed

text \<open>The sidebar layer is transparent while the menu is closed and not displayed from
  the breakpoint on.\<close>

lemma shown_links_sidebar:
  "shown_links vp (render_sidebar st) =
     (if vp = Mobile \<and> isMobileMenuOpen st then links (render_sidebar st) else [])"
  by (cases vp; cases "isMobileMenuOpen st")
    (simp_all add: shown_links_def links_def render_sidebar_def render_backdrop_def
      shown_elem class_simps plain_eval shown_all_plain [OF all_plain_sidebar_panel])

lemma shown_links_render:
  "shown_links vp (render p st) =
     shown_links vp (render_nav p st) @ shown_links vp (render_sidebar st)"
  by (simp add: shown_links_def render_def)

section \<open>The links of the source\<close>

text \<open>The links of the two lists, entry by entry of \<^verbatim>\<open>navItems\<close>.\<close>

definition github_url :: js_string where
  "github_url = ''https://github.com/unilei/kerkerker''"

lemma links_desktop_nav_eq:
  "links (render_desktop_nav st) =
     map (\<lambda>h. (Some h, None, [])) [''/'', ''/browse/movies'', ''/browse/tv'', ''/calendar'',
       ''/browse/latest''] @
     (if openDropdown st = Some label_shorts
      then map (\<lambda>h. (Some h, None, [])) [''/shorts'', ''/dailymotion''] else []) @
     [(Some github_url, Some ''_blank'', [])]"
  by (simp add: links_desktop_nav links_desktop_item desktop_items_def navItems_def
      item_links_def child_link_def nav_data github_url_def)

lemma links_sidebar_eq:
  "links (render_sidebar st) =
     map (\<lambda>h. (Some h, None, [close_menu])) [''/'', ''/browse/movies'', ''/browse/tv'',
       ''/calendar'', ''/browse/latest'', ''/history'', ''/shorts'', ''/dailymotion''] @
     [(Some github_url, Some ''_blank'', [close_menu])]"
  by (simp add: links_sidebar navItems_def item_links_def child_link_def nav_data
      github_url_def)

lemmas links_source = links_render links_nav links_desktop_nav [symmetric] links_desktop_nav_eq
  links_sidebar_eq

lemmas shown_links_source = shown_links_render shown_links_nav shown_links_sidebar
  links_desktop_nav_eq links_sidebar_eq

section \<open>The sub-menu panels\<close>

lemma panels_desktop_item:
  "panels (render_desktop_item st item) =
     (if has_children item \<and> openDropdown st = Some (label item)
      then [([cls ''absolute top-full left-0 pt-1''], kids (render_dropdown_panel item))]
      else [])"
  by (simp add: panels_def render_desktop_item_def render_dropdown_panel_def
      render_dropdown_child_def render_chevron_def class_simps comp_def)

lemma panels_desktop_nav:
  "panels (render_desktop_nav st) =
     concat (map (\<lambda>item. panels (render_desktop_item st item)) desktop_items)"
  by (simp add: panels_def render_desktop_nav_def class_simps comp_def filter_concat map_concat)

lemma panels_nav: "panels (render_nav p st) = panels (render_desktop_nav st)"
  by (cases "scrolled p")
    (simp_all add: panels_def render_nav_def render_hamburger_def render_logo_def
      render_search_def class_simps)

lemma panels_sidebar_item: "panels (render_sidebar_item item) = []"
  by (simp add: panels_def render_sidebar_item_def render_sidebar_child_def class_simps comp_def)

lemma panels_sidebar: "panels (render_sidebar st) = []"
proof -
  have "filter (\<lambda>e. has_class ''top-full'' (class_of (fst e)))
      (concat (map (elems (Html ''div'') \<circ> render_sidebar_item) navItems)) = []"
    using panels_sidebar_item by (simp add: panels_def filter_concat comp_def)
  then show ?thesis
    by (cases "isMobileMenuOpen st")
      (simp_all add: panels_def render_sidebar_def render_backdrop_def sidebar_panel_defs
        class_simps)
qed

section \<open>Components and texts\<close>

text \<open>The icons of a tree, in document order.\<close>

fun icon_of :: "component \<Rightarrow> icon list" where
  "icon_of (Lucide ic) = [ic]"
| "icon_of _ = []"

definition icons :: "view \<Rightarrow> icon list" where
  "icons n = concat (map icon_of (comps n))"

lemma comps_hamburger:
  "comps (render_hamburger st) = [Lucide (if isMobileMenuOpen st then X else Menu)]"
  by (simp add: render_hamburger_def)

lemma comps_desktop_item:
  "comps (render_desktop_item st item) =
     (if has_children item
      then (if openDropdown st = Some (label item)
            then replicate (length (children_of item)) Link else [])
      else [Link])"
  by (simp add: render_desktop_item_def render_chevron_def render_dropdown_panel_def
      render_dropdown_child_def comp_def map_replicate_const)

lemma comps_desktop_nav:
  "comps (render_desktop_nav st) =
     concat (map (\<lambda>item. comps (render_desktop_item st item)) desktop_items)"
  by (simp add: render_desktop_nav_def comp_def)

lemma comps_nav:
  "comps (render_nav p st) =
     Lucide (if isMobileMenuOpen st then X else Menu) # Link #
     comps (render_desktop_nav st) @ [HistoryPopup]"
  using comps_hamburger [of st]
  by (simp add: render_nav_def render_logo_def render_search_def)

lemma comps_sidebar_item:
  "comps (render_sidebar_item item) =
     (if has_children item
      then Lucide (icon item) # replicate (length (children_of item)) Link
      else [Link, Lucide (icon item)])"
  by (simp add: render_sidebar_item_def render_sidebar_child_def comp_def map_replicate_const)

lemma comps_sidebar:
  "comps (render_sidebar st) = concat (map (\<lambda>item. comps (render_sidebar_item item)) navItems)"
  by (simp add: render_sidebar_def render_backdrop_def sidebar_panel_defs comp_def)

lemma icons_sidebar_item: "concat (map icon_of (comps (render_sidebar_item item))) = [icon item]"
  by (simp add: comps_sidebar_item)

lemma icons_concat:
  "concat (map icon_of (concat (map g xs))) = concat (map (\<lambda>x. concat (map icon_of (g x))) xs)"
  by (induction xs) simp_all

lemma texts_desktop_item:
  "texts (render_desktop_item st item) =
     (if has_children item
      then label item #
        (if openDropdown st = Some (label item) then map child_label (children_of item) else [])
      else [label item])"
  by (simp add: render_desktop_item_def render_chevron_def render_dropdown_panel_def
      render_dropdown_child_def comp_def)

lemma texts_sidebar_item:
  "texts (render_sidebar_item item) =
     label item # (if has_children item then map child_label (children_of item) else [])"
  by (simp add: render_sidebar_item_def render_sidebar_child_def comp_def)

section \<open>Properties of the tree\<close>

text \<open>
  C17. Every link of the element tree, in every state, has an \<^verbatim>\<open>href\<close>: the entry
  without one is the entry with a sub-menu, which is rendered as a trigger and never
  as a link, so \<^verbatim>\<open>item.href!\<close> does not yield \<^verbatim>\<open>undefined\<close>.
\<close>

theorem links_have_href: "None \<notin> set (link_hrefs (render p st))"
  by (cases "openDropdown st = Some label_shorts") (simp_all add: link_hrefs_def links_source)

text \<open>
  C13. In every state the sidebar has nine links, the seven entries without a
  sub-menu and the two sub-entries, in the order of \<^verbatim>\<open>navItems\<close>; each of them carries
  the handler that closes the menu and no other, while the links of the desktop
  list carry no handler.
\<close>

theorem sidebar_links_close_menu:
  "map fst (links (render_sidebar st)) =
     map Some [''/'', ''/browse/movies'', ''/browse/tv'', ''/calendar'', ''/browse/latest'',
       ''/history'', ''/shorts'', ''/dailymotion'', github_url] \<and>
   map (snd \<circ> snd) (links (render_sidebar st)) = replicate 9 [close_menu] \<and>
   concat (map (snd \<circ> snd) (links (render_desktop_nav st))) = []"
  by (cases "openDropdown st = Some label_shorts")
    (simp_all add: links_sidebar_eq links_desktop_nav_eq numeral_eq_Suc)

text \<open>
  C14. The history entry is mobile-only: the navigation bar never has a link to
  \<^verbatim>\<open>/history\<close>, whatever the state, and a link to it can be seen exactly below the
  breakpoint while the mobile menu is open.
\<close>

theorem history_link_mobile_only:
  "Some ''/history'' \<notin> set (link_hrefs (render_nav p st)) \<and>
   (Some ''/history'' \<in> set (shown_hrefs vp (render p st)) \<longleftrightarrow>
      vp = Mobile \<and> isMobileMenuOpen st)"
  by (cases vp; cases "openDropdown st = Some label_shorts"; cases "isMobileMenuOpen st")
    (simp_all add: link_hrefs_def shown_hrefs_def links_source shown_links_source
      github_url_def)

text \<open>
  C16. The links to the Github repository, one in each list, are the only links
  with a \<^verbatim>\<open>target\<close>, and their target is \<^verbatim>\<open>_blank\<close>: the external entry opens in a new
  browsing context and every other link navigates in the current one.
\<close>

theorem external_links_blank:
  "list_all (\<lambda>l. fst (snd l) = (if fst l = Some github_url then Some ''_blank'' else None))
     (links (render p st)) \<and>
   blank_hrefs (render p st) = [Some github_url, Some github_url]"
  by (cases "openDropdown st = Some label_shorts")
    (simp_all add: blank_hrefs_def links_source github_url_def)

text \<open>
  C15. The sub-menu of the desktop list is rendered exactly while \<^verbatim>\<open>openDropdown\<close> is
  the label of its entry: at the desktop width the links to \<^verbatim>\<open>/shorts\<close> and
  \<^verbatim>\<open>/dailymotion\<close> can be seen exactly then, and the tree has one panel then and
  none otherwise.
\<close>

theorem dropdown_panel_gated:
  "(Some ''/shorts'' \<in> set (shown_hrefs Desktop (render p st)) \<longleftrightarrow>
      openDropdown st = Some label_shorts) \<and>
   (Some ''/dailymotion'' \<in> set (shown_hrefs Desktop (render p st)) \<longleftrightarrow>
      openDropdown st = Some label_shorts) \<and>
   length (panels (render_nav p st)) = (if openDropdown st = Some label_shorts then 1 else 0) \<and>
   panels (render_sidebar st) = []"
proof -
  have "length (panels (render_nav p st)) = (if openDropdown st = Some label_shorts then 1 else 0)"
    by (simp add: panels_nav panels_desktop_nav panels_desktop_item desktop_items_def
        navItems_def nav_data)
  then show ?thesis
    by (cases "openDropdown st = Some label_shorts")
      (simp_all add: shown_hrefs_def shown_links_source panels_sidebar github_url_def)
qed

text \<open>
  C20. The property \<^verbatim>\<open>scrolled\<close> decides the background of the bar and nothing else:
  the bar has the class \<^verbatim>\<open>bg-black\<close> exactly when it is true and the gradient classes
  exactly when it is false, and the children of the bar, the sidebar, the links and
  the handlers a user can fire are the same for both values.
\<close>

theorem scrolled_background:
  "has_class ''bg-black'' (root_class (render_nav p st)) = scrolled p \<and>
   has_class ''bg-gradient-to-b'' (root_class (render_nav p st)) = (\<not> scrolled p) \<and>
   has_class ''from-black/80'' (root_class (render_nav p st)) = (\<not> scrolled p) \<and>
   has_class ''to-transparent'' (root_class (render_nav p st)) = (\<not> scrolled p) \<and>
   kids (render_nav p st) = kids (render_nav p' st) \<and>
   kids (render p st) = [render_nav p st, render_sidebar st] \<and>
   links (render p st) = links (render p' st) \<and>
   interactive vp (render p st) = interactive vp (render p' st)"
proof -
  have "has_class ''bg-black'' (root_class (render_nav p st)) = scrolled p"
    and "has_class ''bg-gradient-to-b'' (root_class (render_nav p st)) = (\<not> scrolled p)"
    and "has_class ''from-black/80'' (root_class (render_nav p st)) = (\<not> scrolled p)"
    and "has_class ''to-transparent'' (root_class (render_nav p st)) = (\<not> scrolled p)"
    by (cases "scrolled p"; simp add: render_nav_def class_simps)+
  moreover have "kids (render_nav p st) = kids (render_nav p' st)"
    by (simp add: render_nav_def)
  moreover have "kids (render p st) = [render_nav p st, render_sidebar st]"
    by (simp add: render_def)
  moreover have "links (render p st) = links (render p' st)"
    by (simp add: links_render links_nav)
  moreover have "interactive vp (render p st) = interactive vp (render p' st)"
    by (simp add: interactive_render)
  ultimately show ?thesis by simp
qed

text \<open>
  C24. The history popup is instantiated once, in the bar, with no property and no
  child, in every state; the sidebar has none.
\<close>

theorem history_popup_once:
  "elems (Comp HistoryPopup) (render p st) = [([], [])] \<and>
   elems (Comp HistoryPopup) (render_sidebar st) = []"
proof -
  have d: "elems (Comp HistoryPopup) (render_desktop_nav st) = []"
    by (rule elems_not_comp) (auto simp: comps_desktop_nav comps_desktop_item)
  have h: "elems (Comp HistoryPopup) (render_hamburger st) = []"
    by (rule elems_not_comp) (simp add: comps_hamburger)
  have s: "elems (Comp HistoryPopup) (render_sidebar st) = []"
    by (rule elems_not_comp) (auto simp: comps_sidebar comps_sidebar_item)
  from d h have "elems (Comp HistoryPopup) (render_nav p st) = [([], [])]"
    by (simp add: render_nav_def render_logo_def render_search_def)
  with s show ?thesis by (simp add: render_def)
qed

text \<open>
  C19. The mobile list renders the icon of every entry of \<^verbatim>\<open>navItems\<close>, in the order
  of the array, and the desktop list renders no icon; the only icon of the bar is
  the one of the hamburger button.
\<close>

theorem sidebar_icons:
  "icons (render_sidebar st) = map icon navItems \<and>
   icons (render_desktop_nav st) = [] \<and>
   icons (render_nav p st) = [if isMobileMenuOpen st then X else Menu]"
proof -
  have "icons (render_sidebar st) = concat (map (\<lambda>item. [icon item]) navItems)"
    by (simp add: icons_def comps_sidebar icons_concat icons_sidebar_item)
  moreover have d: "icons (render_desktop_nav st) = []"
    by (auto simp: icons_def comps_desktop_nav comps_desktop_item)
  moreover from d have "icons (render_nav p st) = [if isMobileMenuOpen st then X else Menu]"
    by (simp add: icons_def comps_nav)
  ultimately show ?thesis by (simp add: navItems_def)
qed

text \<open>
  C18. The texts of the two lists are the labels of the source: the desktop list
  shows the labels of the entries that are not mobile-only, in the order of the
  array, followed for the entry with a sub-menu by the labels of its sub-entries
  while it is open; the mobile list shows the label of every entry, followed for
  the entry with a sub-menu by the labels of its sub-entries.
\<close>

theorem list_texts:
  "texts (render_desktop_nav st) =
     [label_home, label_movies, label_tv, label_calendar, label_latest, label_shorts] @
     (if openDropdown st = Some label_shorts then [label_shorts, label_shorts_motion] else []) @
     [''Github''] \<and>
   texts (render_sidebar st) =
     [brand_sidebar, label_home, label_movies, label_tv, label_calendar, label_latest,
      label_history, label_shorts, label_shorts, label_shorts_motion, ''Github'', footer_text]"
proof -
  have "texts (render_desktop_nav st) =
      concat (map (\<lambda>item. texts (render_desktop_item st item)) desktop_items)"
    by (simp add: render_desktop_nav_def comp_def)
  moreover have "texts (render_sidebar st) =
      brand_sidebar # concat (map (\<lambda>item. texts (render_sidebar_item item)) navItems) @
      [footer_text]"
    by (simp add: render_sidebar_def render_backdrop_def sidebar_panel_defs comp_def)
  ultimately show ?thesis
    by (simp add: texts_desktop_item texts_sidebar_item desktop_items_def navItems_def
        is_mobile_only_def has_children_def children_of_def)
qed

section \<open>Keys\<close>

text \<open>The key of an entry in either list is the one \<open>item_key\<close> gives; the key of a
  sub-entry is its \<^verbatim>\<open>href\<close>.\<close>

lemma key_desktop_item: "key_of (render_desktop_item st item) = item_key item"
  by (simp add: render_desktop_item_def item_key_def)

lemma key_sidebar_item: "key_of (render_sidebar_item item) = item_key item"
  by (simp add: render_sidebar_item_def item_key_def)

lemma key_child:
  "key_of (render_dropdown_child c) = Some (child_href c)"
  "key_of (render_sidebar_child c) = Some (child_href c)"
  by (simp_all add: render_dropdown_child_def render_sidebar_child_def)

lemma distinct_item_keys: "distinct (map item_key navItems)" "None \<notin> set (map item_key navItems)"
  by (simp_all add: navItems_item_keys)

text \<open>
  C25. The elements the two lists make from the array carry the keys of the source,
  \<^verbatim>\<open>item.label\<close> for the entry with a sub-menu and \<^verbatim>\<open>item.href\<close> for a link, in the order
  of the array; in each list every key is defined and no two siblings have the same
  key, and the same holds for the keys (\<^verbatim>\<open>child.href\<close>) of the sub-entries of every
  entry, in the panel of the desktop list and in the sidebar.
\<close>

theorem rendered_keys_distinct:
  "map key_of (kids (render_desktop_nav st)) = map item_key desktop_items \<and>
   map key_of (kids render_sidebar_list) = map item_key navItems \<and>
   distinct (map key_of (kids (render_desktop_nav st))) \<and>
   distinct (map key_of (kids render_sidebar_list)) \<and>
   None \<notin> set (map key_of (kids (render_desktop_nav st) @ kids render_sidebar_list)) \<and>
   list_all (\<lambda>item. distinct (map key_of (map render_dropdown_child (children_of item))) \<and>
      distinct (map key_of (map render_sidebar_child (children_of item)))) navItems"
proof -
  have d: "map key_of (kids (render_desktop_nav st)) = map item_key desktop_items"
    by (simp add: render_desktop_nav_def key_desktop_item)
  have s: "map key_of (kids render_sidebar_list) = map item_key navItems"
    by (simp add: render_sidebar_list_def key_sidebar_item)
  have "distinct (map item_key desktop_items)"
    unfolding desktop_items_def by (rule distinct_map_filter) (rule distinct_item_keys)
  moreover have "None \<notin> set (map item_key desktop_items)"
    using distinct_item_keys(2) by (auto dest: desktop_items_subset)
  moreover have "list_all (\<lambda>item.
      distinct (map key_of (map render_dropdown_child (children_of item))) \<and>
      distinct (map key_of (map render_sidebar_child (children_of item)))) navItems"
    by (simp add: comp_def key_child navItems_def children_of_def)
  ultimately show ?thesis
    using distinct_item_keys by (simp add: d s)
qed

end
