(* ===== verification/Navbar_System.thy ===== *)
theory Navbar_System
  imports Navbar_View
begin

text \<open>
  The component in its environment: the \<open>runtime\<close> of \<open>Navbar_Hooks\<close> extended with the
  width of the window, and a step function in which a user can fire only a handler
  that the tree rendered from the current state offers at the current width
  (\<open>interactive\<close>), by pointer or by keyboard; \<open>pointer_offered\<close> are the handlers a
  pointer reaches. The environment mounts and unmounts the component, passes it new
  properties, lets React render, and resizes the window. \<open>reachable w0 w\<close> are the
  worlds that finitely many steps lead to from \<open>w0\<close>.

  The lemmas: the invariants of the reachable worlds (the scroll lock agrees with the
  rendered state; the open sub-menu is one of the sub-menus of the desktop list; the
  queue holds setter calls only), and that a run is a sequence of steps.
\<close>

section \<open>Worlds and steps\<close>

record world = runtime +
  viewport :: viewport

definition init_world :: "viewport \<Rightarrow> js_string \<Rightarrow> world" where
  "init_world vp ov =
     \<lparr>component = None, document = \<lparr>body_overflow = ov\<rparr>, search_calls = [], viewport = vp\<rparr>"

text \<open>The tree on the screen: the one the last render returned.\<close>

definition view_of :: "navbar_instance \<Rightarrow> view" where
  "view_of i = render (props i) (state i)"

text \<open>The handlers the user can fire in a world.\<close>

definition offered :: "world \<Rightarrow> (js_string \<times> action) list" where
  "offered w = (case component w of None \<Rightarrow> [] | Some i \<Rightarrow> interactive (viewport w) (view_of i))"

text \<open>The handlers a pointer can fire in a world: those of the layers that no other
  layer covers. A handler that is offered and not reached by a pointer is left to
  the keyboard.\<close>

definition pointer_offered :: "world \<Rightarrow> (js_string \<times> action) list" where
  "pointer_offered w =
     (case component w of None \<Rightarrow> [] | Some i \<Rightarrow> pointer_handlers (viewport w) (view_of i))"

datatype sys_event = Runtime rt_event | Resize viewport

fun enabled :: "world \<Rightarrow> rt_event \<Rightarrow> bool" where
  "enabled w (Invoke ev a) \<longleftrightarrow> (ev, a) \<in> set (offered w)"
| "enabled w _ \<longleftrightarrow> True"

fun step :: "world \<Rightarrow> sys_event \<Rightarrow> world option" where
  "step w (Runtime e) = (if enabled w e then rt_step w e else None)"
| "step w (Resize vp) = Some (w\<lparr>viewport := vp\<rparr>)"

fun run :: "world \<Rightarrow> sys_event list \<Rightarrow> world option" where
  "run w [] = Some w"
| "run w (e # es) = (case step w e of None \<Rightarrow> None | Some w' \<Rightarrow> run w' es)"

inductive reachable :: "world \<Rightarrow> world \<Rightarrow> bool" for w0 where
  start: "reachable w0 w0"
| after: "reachable w0 w \<Longrightarrow> step w e = Some w' \<Longrightarrow> reachable w0 w'"

inductive_cases reachable_cases: "reachable w0 w"

fun_cases step_RuntimeE: "step w (Runtime e) = Some w'"
fun_cases step_ResizeE: "step w (Resize vp) = Some w'"

section \<open>Runs\<close>

lemma run_append:
  "run w (es @ fs) = (case run w es of None \<Rightarrow> None | Some w' \<Rightarrow> run w' fs)"
  by (induction es arbitrary: w) (auto split: option.splits)

lemma run_reachable: "reachable w0 w \<Longrightarrow> run w es = Some w' \<Longrightarrow> reachable w0 w'"
proof (induction es arbitrary: w)
  case Nil
  then show ?case by simp
next
  case (Cons e es)
  then obtain w1 where s: "step w e = Some w1" and r: "run w1 es = Some w'"
    by (auto split: option.splits)
  from Cons.prems(1) s have "reachable w0 w1" by (rule reachable.after)
  then show ?case using r by (rule Cons.IH)
qed

lemma reachable_run: "reachable w0 w \<Longrightarrow> \<exists>es. run w0 es = Some w"
proof (induction rule: reachable.induct)
  case start
  have "run w0 [] = Some w0" by simp
  then show ?case by blast
next
  case (after w e w')
  then obtain es where "run w0 es = Some w" by blast
  with after.hyps(2) have "run w0 (es @ [e]) = Some w'"
    by (simp add: run_append)
  then show ?case by blast
qed

lemma reachable_iff_run: "reachable w0 w \<longleftrightarrow> (\<exists>es. run w0 es = Some w)"
  using reachable_run run_reachable [OF reachable.start] by blast

lemma reachable_trans: "reachable w1 w2 \<Longrightarrow> reachable w0 w1 \<Longrightarrow> reachable w0 w2"
  by (induction rule: reachable.induct) (auto intro: reachable.after)

lemma pointer_offered_subset:
  assumes "h \<in> set (pointer_offered w)"
  shows "h \<in> set (offered w)"
proof (cases "component w")
  case None
  with assms show ?thesis by (simp add: pointer_offered_def)
next
  case (Some i)
  with assms have "h \<in> set (pointer_handlers (viewport w)
      (VElem Fragment [] [render_nav (props i) (state i), render_sidebar (state i)]))"
    by (simp add: pointer_offered_def view_of_def render_def del: pointer_handlers.simps)
  then have "h \<in> set (interactive (viewport w)
      (VElem Fragment [] [render_nav (props i) (state i), render_sidebar (state i)]))"
    by (rule pointer_handlers_subset)
  with Some show ?thesis by (simp add: offered_def view_of_def render_def)
qed

section \<open>Invariants\<close>

text \<open>An invariant of the steps holds in every world reachable from one where it holds.\<close>

lemma invariant_reachable:
  assumes "reachable w0 w" and "P w0"
    and "\<And>w e w'. P w \<Longrightarrow> step w e = Some w' \<Longrightarrow> P w'"
  shows "P w"
  using assms(1) by (induction rule: reachable.induct) (auto intro: assms)

text \<open>The frame of the runtime operations: the width is left alone.\<close>

lemma rt_step_viewport: "rt_step (w::world) e = Some w' \<Longrightarrow> viewport w' = viewport w"
  by (cases e)
    (auto simp: mount_def invoke_def flush_def set_props_def unmount_def
      split: option.splits action.splits prod.splits)

text \<open>The scroll lock.\<close>

lemma lock_inv_resize [simp]: "lock_inv (w\<lparr>viewport := vp\<rparr>) = lock_inv w"
  by (simp add: lock_inv_def lock_ok_def split: option.splits)

lemma step_lock_inv: "lock_inv w \<Longrightarrow> step w e = Some w' \<Longrightarrow> lock_inv w'"
  by (cases e) (auto split: if_splits dest: rt_step_lock_inv)

lemma init_lock_inv: "lock_inv (init_world vp ov)"
  by (simp add: init_world_def lock_inv_def)

lemma reachable_lock_inv: "reachable (init_world vp ov) w \<Longrightarrow> lock_inv w"
  by (rule invariant_reachable [where P = lock_inv]) (auto intro: init_lock_inv step_lock_inv)

text \<open>
  The sub-menus: the labels of the desktop entries with a sub-menu are what
  \<^verbatim>\<open>openDropdown\<close> can hold; the queue holds setter calls with such values.
\<close>

definition dropdown_labels :: "js_string list" where
  "dropdown_labels = map label (filter has_children desktop_items)"

definition dropdown_ok :: "js_string option \<Rightarrow> bool" where
  "dropdown_ok v = (case v of None \<Rightarrow> True | Some l \<Rightarrow> l \<in> set dropdown_labels)"

fun action_ok :: "action \<Rightarrow> bool" where
  "action_ok (SetIsMobileMenuOpen b) \<longleftrightarrow> True"
| "action_ok (SetOpenDropdown v) \<longleftrightarrow> dropdown_ok v"
| "action_ok OnSearchOpen \<longleftrightarrow> False"

definition hooks_ok :: "hooks \<Rightarrow> bool" where
  "hooks_ok s \<longleftrightarrow> dropdown_ok (openDropdown s)"

definition state_inv :: "'a runtime_scheme \<Rightarrow> bool" where
  "state_inv rt =
     (case component rt of
        None \<Rightarrow> True
      | Some i \<Rightarrow> hooks_ok (state i) \<and> list_all action_ok (queue i))"

lemma dropdown_ok_simps [simp]:
  "dropdown_ok None" "dropdown_ok (Some l) \<longleftrightarrow> l \<in> set dropdown_labels"
  by (simp_all add: dropdown_ok_def)

lemma trigger_handlers_ok:
  "item \<in> set desktop_items \<Longrightarrow> (ev, a) \<in> set (trigger_handlers item) \<Longrightarrow> action_ok a"
  by (auto simp: trigger_handlers_def dropdown_labels_def split: if_splits)

text \<open>Every handler the tree offers is a setter call with a value of the right kind, or
  \<^verbatim>\<open>onSearchOpen\<close>.\<close>

lemma interactive_action_ok:
  "(ev, a) \<in> set (interactive vp (render p st)) \<Longrightarrow> a = OnSearchOpen \<or> action_ok a"
  by (cases vp)
    (auto simp: set_interactive_mobile set_interactive_desktop dest: trigger_handlers_ok)

lemma apply_action_hooks_ok: "hooks_ok s \<Longrightarrow> action_ok a \<Longrightarrow> hooks_ok (apply_action s a)"
  by (cases a) (simp_all add: hooks_ok_def)

lemma reduce_queue_hooks_ok:
  "hooks_ok s \<Longrightarrow> list_all action_ok q \<Longrightarrow> hooks_ok (reduce_queue s q)"
  by (induction q arbitrary: s) (simp_all add: apply_action_hooks_ok)

lemma hooks_ok_init: "hooks_ok init_hooks"
  by (simp add: hooks_ok_def init_hooks_def)

lemma state_inv_resize [simp]: "state_inv (w\<lparr>viewport := vp\<rparr>) = state_inv w"
  by (simp add: state_inv_def)

lemma rerender_state_inv:
  "hooks_ok (state i) \<Longrightarrow> list_all action_ok (queue i) \<Longrightarrow> rerender p i d = (i', d') \<Longrightarrow>
   hooks_ok (state i') \<and> queue i' = []"
  by (auto simp: rerender_def Let_def reduce_queue_hooks_ok)

lemma rt_step_state_inv:
  assumes "state_inv w" and "enabled w e" and "rt_step w e = Some w'"
  shows "state_inv w'"
proof (cases e)
  case (Mount p)
  with assms(3) show ?thesis
    by (auto simp: mount_def state_inv_def hooks_ok_init split: option.splits)
next
  case (Invoke ev a)
  with assms(2) obtain i where i: "component w = Some i"
    and off: "(ev, a) \<in> set (interactive (viewport w) (render (props i) (state i)))"
    by (cases "component w") (auto simp: offered_def view_of_def)
  from off have "a = OnSearchOpen \<or> action_ok a" by (rule interactive_action_ok)
  with assms(1,3) Invoke i show ?thesis
    by (auto simp: invoke_def state_inv_def split: action.splits)
next
  case Flush
  with assms(1,3) show ?thesis
    by (auto simp: flush_def state_inv_def split: option.splits prod.splits
        dest: rerender_state_inv)
next
  case (SetProps p)
  with assms(1,3) show ?thesis
    by (auto simp: set_props_def state_inv_def split: option.splits prod.splits
        dest: rerender_state_inv)
next
  case Unmount
  with assms(3) show ?thesis
    by (auto simp: unmount_def state_inv_def split: option.splits)
qed

lemma step_state_inv: "state_inv w \<Longrightarrow> step w e = Some w' \<Longrightarrow> state_inv w'"
  by (cases e) (auto split: if_splits intro: rt_step_state_inv)

lemma init_state_inv: "state_inv (init_world vp ov)"
  by (simp add: init_world_def state_inv_def)

lemma reachable_state_inv: "reachable (init_world vp ov) w \<Longrightarrow> state_inv w"
  by (rule invariant_reachable [where P = state_inv]) (auto intro: init_state_inv step_state_inv)

end
