(* ===== verification/Navbar_Spec.thy ===== *)
theory Navbar_Spec
  imports Navbar_Prelude
begin

text \<open>
  What the specification promises of the component, independent of React and of the
  element tree: the two state machines of its section 4.1 (the mobile menu, closed or
  open; the sub-menu, closed or open for one entry), the scroll lock that goes with
  the mobile menu (section 3), and the count of search activations. The refinement
  lemma of the root theory relates the component to this machine.
\<close>

datatype menu_state = MenuClosed | MenuOpen

datatype dropdown_state = DropdownClosed | DropdownOpen js_string

record spec_state =
  menu :: menu_state
  dropdown :: dropdown_state
  scroll_locked :: bool
  searches :: nat

text \<open>
  The activations of the specification: the hamburger control; a backdrop click or
  the activation of a link that closes the menu; the pointer entering and leaving
  the trigger of an entry; the search control.
\<close>

datatype spec_event =
    Hamburger
  | CloseMenu
  | PointerEnter js_string
  | PointerLeave js_string
  | SearchActivated

definition spec_init :: spec_state where
  "spec_init = \<lparr>menu = MenuClosed, dropdown = DropdownClosed, scroll_locked = False, searches = 0\<rparr>"

fun flip :: "menu_state \<Rightarrow> menu_state" where
  "flip MenuClosed = MenuOpen"
| "flip MenuOpen = MenuClosed"

text \<open>
  The scroll is suspended exactly while the menu is open. A pointer leave clears the
  sub-menu if it is the one of the trigger that is left.
\<close>

fun spec_step :: "spec_state \<Rightarrow> spec_event \<Rightarrow> spec_state" where
  "spec_step s Hamburger =
     s\<lparr>menu := flip (menu s), scroll_locked := (flip (menu s) = MenuOpen)\<rparr>"
| "spec_step s CloseMenu = s\<lparr>menu := MenuClosed, scroll_locked := False\<rparr>"
| "spec_step s (PointerEnter l) = s\<lparr>dropdown := DropdownOpen l\<rparr>"
| "spec_step s (PointerLeave l) =
     (if dropdown s = DropdownOpen l then s\<lparr>dropdown := DropdownClosed\<rparr> else s)"
| "spec_step s SearchActivated = s\<lparr>searches := Suc (searches s)\<rparr>"

definition spec_run :: "spec_state \<Rightarrow> spec_event list \<Rightarrow> spec_state" where
  "spec_run s es = foldl spec_step s es"

text \<open>Teardown: the scroll is restored whatever the state.\<close>

definition spec_teardown :: "spec_state \<Rightarrow> spec_state" where
  "spec_teardown s = s\<lparr>scroll_locked := False\<rparr>"

text \<open>The invariant of section 3: the scroll is suspended exactly when the menu is open.\<close>

definition spec_inv :: "spec_state \<Rightarrow> bool" where
  "spec_inv s \<longleftrightarrow> (scroll_locked s \<longleftrightarrow> menu s = MenuOpen)"

lemma spec_run_simps [simp]:
  "spec_run s [] = s" "spec_run s (e # es) = spec_run (spec_step s e) es"
  by (simp_all add: spec_run_def)

lemma spec_run_append: "spec_run s (es @ fs) = spec_run (spec_run s es) fs"
  by (simp add: spec_run_def)

lemma flip_flip [simp]: "flip (flip m) = m"
  by (cases m) simp_all

lemma spec_inv_init: "spec_inv spec_init"
  by (simp add: spec_inv_def spec_init_def)

lemma spec_step_inv: "spec_inv s \<Longrightarrow> spec_inv (spec_step s e)"
  by (cases e) (auto simp: spec_inv_def)

lemma spec_run_inv: "spec_inv s \<Longrightarrow> spec_inv (spec_run s es)"
  by (induction es arbitrary: s) (simp_all add: spec_step_inv)

text \<open>Two activations of the hamburger control bring the machine back.\<close>

lemma spec_hamburger_twice:
  "spec_inv s \<Longrightarrow> spec_run s [Hamburger, Hamburger] = s"
  by (cases "menu s") (auto simp: spec_inv_def)

text \<open>At most one sub-menu is open: the state holds one label.\<close>

lemma spec_enter_leave: "dropdown (spec_run s [PointerEnter l, PointerLeave l]) = DropdownClosed"
  by simp

end
