(* ===== verification/Navbar_Behaviour.thy ===== *)
theory Navbar_Behaviour
  imports Navbar_System Navbar_Spec
begin

text \<open>
  The user's side of the system: a tap is the call of an offered handler followed by
  the render React makes after a discrete event. The theory gives the world a tap
  leads to, what the world offers at each width, the map from a world of the
  component to a state of the specification (\<open>abstraction\<close>) and from a handler to an
  activation of the specification (\<open>spec_event_of\<close>) with the simulation lemma for a
  session of discrete events (taps, new properties, resizes, renders), the invariant
  of a session that stays at the desktop width, and two worlds of reference. The properties of the root theory are proved from its lemmas.
\<close>

section \<open>Observations of a world\<close>

definition mounted :: "'a runtime_scheme \<Rightarrow> bool" where
  "mounted rt \<longleftrightarrow> present (component rt)"

definition quiescent :: "'a runtime_scheme \<Rightarrow> bool" where
  "quiescent rt = (case component rt of None \<Rightarrow> True | Some i \<Rightarrow> queue i = [])"

definition menu_open :: "'a runtime_scheme \<Rightarrow> bool" where
  "menu_open rt = (case component rt of None \<Rightarrow> False | Some i \<Rightarrow> isMobileMenuOpen (state i))"

definition open_dropdown :: "'a runtime_scheme \<Rightarrow> js_string option" where
  "open_dropdown rt = (case component rt of None \<Rightarrow> None | Some i \<Rightarrow> openDropdown (state i))"

definition overflow :: "'a runtime_scheme \<Rightarrow> js_string" where
  "overflow rt = body_overflow (document rt)"

text \<open>The callback the search button of the last render calls.\<close>

definition search_callback :: "'a runtime_scheme \<Rightarrow> callback" where
  "search_callback rt = (case component rt of None \<Rightarrow> [] | Some i \<Rightarrow> onSearchOpen (props i))"

text \<open>The handler of the hamburger button as the world shows it.\<close>

definition hamburger :: "'a runtime_scheme \<Rightarrow> js_string \<times> action" where
  "hamburger rt = (''onClick'', SetIsMobileMenuOpen (\<not> menu_open rt))"

lemma hamburger_sel [simp]:
  "fst (hamburger rt) = ''onClick''" "snd (hamburger rt) = SetIsMobileMenuOpen (\<not> menu_open rt)"
  by (simp_all add: hamburger_def)

lemmas observations = mounted_def quiescent_def menu_open_def open_dropdown_def overflow_def

section \<open>Taps\<close>

text \<open>A discrete event: the handler is called, then React renders.\<close>

definition tap :: "js_string \<times> action \<Rightarrow> sys_event list" where
  "tap h = [Runtime (Invoke (fst h) (snd h)), Runtime Flush]"

text \<open>The world after a tap on \<open>h\<close> in a world whose mounted instance is \<open>i\<close>.\<close>

definition after_tap :: "js_string \<times> action \<Rightarrow> navbar_instance \<Rightarrow> world \<Rightarrow> world" where
  "after_tap h i w =
     (let s = apply_action (state i) (snd h) in
      w\<lparr>component := Some \<lparr>props = props i, state = s, queue = [],
          effect_dep = isMobileMenuOpen s\<rparr>,
        document := run_effect (effect_dep i) (isMobileMenuOpen s) (document w),
        search_calls := search_calls w @
          (if snd h = OnSearchOpen then [(onSearchOpen (props i), fst h)] else [])\<rparr>)"

lemma tap_result:
  assumes "component w = Some i" and "queue i = []" and "h \<in> set (offered w)"
  shows "run w (tap h) = Some (after_tap h i w)"
  using assms
  by (cases h; cases "snd h")
    (auto simp: tap_def invoke_def flush_def rerender_def after_tap_def Let_def)

lemma tap_not_offered: "h \<notin> set (offered w) \<Longrightarrow> run w (tap h) = None"
  by (simp add: tap_def)

lemma tap_defined:
  "run w (tap h) = Some w' \<Longrightarrow> h \<in> set (offered w)"
  by (rule ccontr) (simp add: tap_not_offered)

lemma offered_mounted: "h \<in> set (offered w) \<Longrightarrow> \<exists>i. component w = Some i"
  by (cases "component w") (simp_all add: offered_def)

lemma after_tap_fields [simp]:
  "component (after_tap h i w) =
     Some \<lparr>props = props i, state = apply_action (state i) (snd h), queue = [],
       effect_dep = isMobileMenuOpen (apply_action (state i) (snd h))\<rparr>"
  "viewport (after_tap h i w) = viewport w"
  "search_calls (after_tap h i w) =
     search_calls w @ (if snd h = OnSearchOpen then [(onSearchOpen (props i), fst h)] else [])"
  by (simp_all add: after_tap_def Let_def)

lemma after_tap_overflow:
  "lock_ok i (document w) \<Longrightarrow>
   body_overflow (document (after_tap h i w)) =
     (if isMobileMenuOpen (apply_action (state i) (snd h)) then ''hidden'' else ''unset'')"
  by (auto simp: after_tap_def Let_def lock_ok_def run_effect_overflow)

text \<open>The observations of the world after a tap.\<close>

lemma mountedE: "mounted w \<Longrightarrow> (\<And>i. component w = Some i \<Longrightarrow> thesis) \<Longrightarrow> thesis"
  by (cases "component w") (simp_all add: mounted_def)

lemma mountedI: "component w = Some i \<Longrightarrow> mounted w"
  by (simp add: mounted_def)

lemma quiescent_queue: "quiescent w \<Longrightarrow> component w = Some i \<Longrightarrow> queue i = []"
  by (simp add: quiescent_def)

lemma after_tap_observations [simp]:
  "mounted (after_tap h i w)" "quiescent (after_tap h i w)"
  "menu_open (after_tap h i w) = isMobileMenuOpen (apply_action (state i) (snd h))"
  "open_dropdown (after_tap h i w) = openDropdown (apply_action (state i) (snd h))"
  by (simp_all add: observations)

lemma overflow_after_tap:
  "lock_ok i (document w) \<Longrightarrow>
   overflow (after_tap h i w) =
     (if isMobileMenuOpen (apply_action (state i) (snd h)) then ''hidden'' else ''unset'')"
  by (simp add: overflow_def after_tap_overflow)

text \<open>Two worlds with the same fields are the same world.\<close>

lemma world_eqI:
  fixes w w' :: world
  assumes "component w' = component w" and "document w' = document w"
    and "search_calls w' = search_calls w" and "viewport w' = viewport w"
  shows "w' = w"
  using assms by (cases w; cases w') simp

lemma document_after_tap:
  "document (after_tap h i w) =
     run_effect (effect_dep i) (isMobileMenuOpen (apply_action (state i) (snd h))) (document w)"
  by (simp add: after_tap_def Let_def)

section \<open>What a world offers\<close>

lemma offered_mobile:
  "component w = Some i \<Longrightarrow> viewport w = Mobile \<Longrightarrow>
   set (offered w) =
     {(''onClick'', SetIsMobileMenuOpen (\<not> isMobileMenuOpen (state i))), close_menu,
      (''onClick'', OnSearchOpen)}"
  by (simp add: offered_def view_of_def set_interactive_mobile)

lemma offered_desktop:
  "component w = Some i \<Longrightarrow> viewport w = Desktop \<Longrightarrow>
   set (offered w) =
     {close_menu, (''onClick'', OnSearchOpen)} \<union>
     (\<Union>item \<in> set desktop_items. set (trigger_handlers item))"
  by (simp add: offered_def view_of_def set_interactive_desktop)

lemma dropdown_labels_eq: "dropdown_labels = [label_shorts]"
  by (simp add: dropdown_labels_def desktop_items_def navItems_def has_children_def
      is_mobile_only_def)

lemma trigger_handlers_desktop:
  "(\<Union>item \<in> set desktop_items. set (trigger_handlers item)) =
     {(''onMouseEnter'', SetOpenDropdown (Some label_shorts)),
      (''onMouseLeave'', SetOpenDropdown None)}"
  by (auto simp: desktop_items_def navItems_def has_children_def is_mobile_only_def
      trigger_handlers_def)

lemma search_offered: "component w = Some i \<Longrightarrow> (''onClick'', OnSearchOpen) \<in> set (offered w)"
  by (cases "viewport w") (simp_all add: offered_mobile offered_desktop)

lemma close_offered: "component w = Some i \<Longrightarrow> close_menu \<in> set (offered w)"
  by (cases "viewport w") (simp_all add: offered_mobile offered_desktop)

lemma hamburger_offered:
  "component w = Some i \<Longrightarrow> viewport w = Mobile \<Longrightarrow> hamburger w \<in> set (offered w)"
  by (simp add: offered_mobile hamburger_def menu_open_def)

text \<open>A handler that opens the menu is offered only below the breakpoint, while the
  menu is closed.\<close>

lemma open_offered:
  "component w = Some i \<Longrightarrow> (ev, SetIsMobileMenuOpen True) \<in> set (offered w) \<Longrightarrow>
   viewport w = Mobile \<and> \<not> isMobileMenuOpen (state i)"
  by (cases "viewport w")
    (auto simp: offered_mobile offered_desktop trigger_handlers_desktop)

section \<open>The specification's view of a world\<close>

definition abstraction :: "navbar_instance \<Rightarrow> 'a runtime_scheme \<Rightarrow> spec_state" where
  "abstraction i rt =
     \<lparr>menu = (if isMobileMenuOpen (state i) then MenuOpen else MenuClosed),
      dropdown = (case openDropdown (state i) of None \<Rightarrow> DropdownClosed | Some l \<Rightarrow> DropdownOpen l),
      scroll_locked = (body_overflow (document rt) = ''hidden''),
      searches = length (search_calls rt)\<rparr>"

text \<open>
  The activation a handler stands for. The one trigger of the desktop list is the
  one a pointer can leave.
\<close>

fun spec_event_of :: "js_string \<times> action \<Rightarrow> spec_event" where
  "spec_event_of (ev, SetIsMobileMenuOpen b) = (if b then Hamburger else CloseMenu)"
| "spec_event_of (ev, SetOpenDropdown (Some l)) = PointerEnter l"
| "spec_event_of (ev, SetOpenDropdown None) = PointerLeave (hd dropdown_labels)"
| "spec_event_of (ev, OnSearchOpen) = SearchActivated"

lemma abstraction_after_tap:
  assumes i: "component w = Some i" and lock: "lock_ok i (document w)"
    and ok: "hooks_ok (state i)" and h: "h \<in> set (offered w)"
  shows "abstraction \<lparr>props = props i, state = apply_action (state i) (snd h), queue = [],
           effect_dep = isMobileMenuOpen (apply_action (state i) (snd h))\<rparr> (after_tap h i w) =
         spec_step (abstraction i w) (spec_event_of h)"
proof (cases h)
  case (Pair ev a)
  show ?thesis
  proof (cases a)
    case (SetIsMobileMenuOpen b)
    with Pair h i have "b \<Longrightarrow> \<not> isMobileMenuOpen (state i)"
      by (auto dest: open_offered)
    with Pair SetIsMobileMenuOpen lock show ?thesis
      by (auto simp: abstraction_def after_tap_overflow lock_ok_def)
  next
    case (SetOpenDropdown v)
    with Pair lock ok show ?thesis
      by (cases v; cases "openDropdown (state i)")
        (auto simp: abstraction_def after_tap_overflow lock_ok_def hooks_ok_def
          dropdown_labels_eq)
  next
    case OnSearchOpen
    with Pair lock show ?thesis
      by (auto simp: abstraction_def after_tap_overflow lock_ok_def)
  qed
qed

text \<open>The invariants after a tap, for the induction over a session.\<close>

lemma after_tap_reachable:
  "reachable w0 w \<Longrightarrow> component w = Some i \<Longrightarrow> queue i = [] \<Longrightarrow> h \<in> set (offered w) \<Longrightarrow>
   reachable w0 (after_tap h i w)"
  using tap_result [of w i h] by (auto intro: run_reachable)

lemma reachable_lock_ok:
  "reachable (init_world vp ov) w \<Longrightarrow> component w = Some i \<Longrightarrow> lock_ok i (document w)"
  by (drule reachable_lock_inv) (simp add: lock_inv_def)

lemma reachable_hooks_ok:
  "reachable (init_world vp ov) w \<Longrightarrow> component w = Some i \<Longrightarrow> hooks_ok (state i)"
  by (drule reachable_state_inv) (simp add: state_inv_def)

section \<open>Sessions of discrete events\<close>

text \<open>
  What happens to a mounted component between two handler calls: the user taps, the
  parent passes new properties, the window is resized, React renders. A session is
  a sequence of such events; only the taps are activations of the specification.
\<close>

datatype user_event =
    Tap "js_string \<times> action"
  | Props navbar_props
  | Width viewport
  | Render

fun events_of :: "user_event \<Rightarrow> sys_event list" where
  "events_of (Tap h) = tap h"
| "events_of (Props p) = [Runtime (SetProps p)]"
| "events_of (Width vp) = [Resize vp]"
| "events_of Render = [Runtime Flush]"

fun activations_of :: "user_event \<Rightarrow> spec_event list" where
  "activations_of (Tap h) = [spec_event_of h]"
| "activations_of _ = []"

definition session :: "user_event list \<Rightarrow> sys_event list" where
  "session us = concat (map events_of us)"

definition activations :: "user_event list \<Rightarrow> spec_event list" where
  "activations us = concat (map activations_of us)"

lemma session_simps [simp]:
  "session [] = []" "session (u # us) = events_of u @ session us"
  "activations [] = []" "activations (u # us) = activations_of u @ activations us"
  by (simp_all add: session_def activations_def)

text \<open>A render with nothing queued, for new properties or for none, in a world where
  the effect is up to date.\<close>

lemma set_props_quiescent:
  assumes "component w = Some i" and "queue i = []" and "lock_ok i (document w)"
  shows "set_props p w = Some (w\<lparr>component := Some (i\<lparr>props := p\<rparr>)\<rparr>)"
proof -
  from assms(3) have dep: "effect_dep i = isMobileMenuOpen (state i)" by (simp add: lock_ok_def)
  with assms(2) have "\<lparr>props = p, state = state i, queue = [],
      effect_dep = isMobileMenuOpen (state i)\<rparr> = i\<lparr>props := p\<rparr>"
    by (cases i) simp
  with dep show ?thesis
    using assms(1,2) by (simp add: set_props_def rerender_def run_effect_def Let_def)
qed

lemma flush_quiescent:
  assumes "component w = Some i" and "queue i = []" and "lock_ok i (document w)"
  shows "flush w = Some w"
proof -
  have "set_props (props i) w = Some (w\<lparr>component := Some (i\<lparr>props := props i\<rparr>)\<rparr>)"
    using assms by (rule set_props_quiescent)
  with assms(1) show ?thesis by (simp add: flush_def set_props_def)
qed

lemma abstraction_frame [simp]:
  "abstraction (i\<lparr>props := p\<rparr>) rt = abstraction i rt"
  "abstraction i (w\<lparr>viewport := vp\<rparr>) = abstraction i w"
  "abstraction i (w\<lparr>component := c\<rparr>) = abstraction i w"
  by (simp_all add: abstraction_def)

text \<open>One event of a session simulates its activations, and keeps what the next
  event needs.\<close>

lemma user_event_refine:
  assumes r: "reachable (init_world vp ov) w" and i: "component w = Some i"
    and q: "queue i = []" and run: "run w (events_of u) = Some w1"
  shows "\<exists>i1. component w1 = Some i1 \<and> queue i1 = [] \<and>
           abstraction i1 w1 = spec_run (abstraction i w) (activations_of u)"
proof -
  from r i have lock: "lock_ok i (document w)" by (rule reachable_lock_ok)
  show ?thesis
  proof (cases u)
    case (Tap h)
    with run have h: "h \<in> set (offered w)" by (auto intro: tap_defined)
    with i q run Tap have w1: "w1 = after_tap h i w" by (simp add: tap_result)
    from i lock reachable_hooks_ok [OF r i] h show ?thesis
      unfolding w1 Tap by (simp add: abstraction_after_tap)
  next
    case (Props p)
    with run i q lock show ?thesis by (auto simp: set_props_quiescent)
  next
    case (Width vp')
    with run i q show ?thesis by auto
  next
    case Render
    with run i q lock show ?thesis by (auto simp: flush_quiescent)
  qed
qed

lemma session_refine:
  assumes "reachable (init_world vp ov) w" and "component w = Some i" and "queue i = []"
    and "run w (session us) = Some w'"
  shows "\<exists>i'. component w' = Some i' \<and> queue i' = [] \<and>
           abstraction i' w' = spec_run (abstraction i w) (activations us)"
  using assms
proof (induction us arbitrary: w i)
  case Nil
  then show ?case by simp
next
  case (Cons u us)
  from Cons.prems(4) obtain w1 where u: "run w (events_of u) = Some w1"
    and r: "run w1 (session us) = Some w'"
    by (auto simp: run_append split: option.splits)
  from Cons.prems(1,2,3) u obtain i1 where i1: "component w1 = Some i1" "queue i1 = []"
    and a1: "abstraction i1 w1 = spec_run (abstraction i w) (activations_of u)"
    using user_event_refine by blast
  from Cons.prems(1) u have "reachable (init_world vp ov) w1" by (rule run_reachable)
  from Cons.IH [OF this i1 r] a1 show ?case by (simp add: spec_run_append)
qed

text \<open>
  The activations the specification allows at a width: the hamburger control exists
  below the breakpoint, the triggers of the sub-menus from it on.
\<close>

fun spec_enabled :: "viewport \<Rightarrow> spec_event list" where
  "spec_enabled Mobile = [Hamburger, CloseMenu, SearchActivated]"
| "spec_enabled Desktop =
     [CloseMenu, SearchActivated] @ map PointerEnter dropdown_labels @
     map PointerLeave dropdown_labels"

section \<open>Sessions at the desktop width\<close>

text \<open>
  While the window stays at the desktop width nothing the tree offers opens the
  menu: the menu is closed and no call that opens it is queued.
\<close>

fun is_resize :: "sys_event \<Rightarrow> bool" where
  "is_resize (Resize vp) \<longleftrightarrow> True"
| "is_resize (Runtime e) \<longleftrightarrow> False"

definition desktop_closed :: "world \<Rightarrow> bool" where
  "desktop_closed w \<longleftrightarrow>
     viewport w = Desktop \<and>
     (case component w of
        None \<Rightarrow> True
      | Some i \<Rightarrow> \<not> isMobileMenuOpen (state i) \<and> SetIsMobileMenuOpen True \<notin> set (queue i))"

lemma run_invariant:
  assumes "run w es = Some w'" and "P w"
    and "\<And>w e w'. P w \<Longrightarrow> e \<in> set es \<Longrightarrow> step w e = Some w' \<Longrightarrow> P w'"
  shows "P w'"
  using assms
proof (induction es arbitrary: w)
  case Nil
  then show ?case by simp
next
  case (Cons e es)
  from Cons.prems(1) obtain w1 where s: "step w e = Some w1" and r: "run w1 es = Some w'"
    by (auto split: option.splits)
  from Cons.prems(2) s have "P w1" by (intro Cons.prems(3) [of w e w1]) simp_all
  with r show ?case by (rule Cons.IH) (auto intro: Cons.prems(3))
qed

lemma desktop_closed_rerender:
  "\<not> isMobileMenuOpen (state i) \<Longrightarrow> SetIsMobileMenuOpen True \<notin> set (queue i) \<Longrightarrow>
   rerender p i d = (i', d') \<Longrightarrow>
   \<not> isMobileMenuOpen (state i') \<and> SetIsMobileMenuOpen True \<notin> set (queue i')"
  by (auto simp: rerender_def Let_def dest: reduce_queue_closed)

lemma desktop_closed_rt_step:
  assumes "desktop_closed w" and "enabled w e" and "rt_step w e = Some w'"
  shows "desktop_closed w'"
proof (cases e)
  case (Mount p)
  with assms(1,3) show ?thesis
    by (auto simp: desktop_closed_def mount_def init_hooks_def split: option.splits)
next
  case (Invoke ev a)
  with assms(3) obtain i where i: "component w = Some i"
    by (cases "component w") (auto simp: invoke_def)
  from assms(1) have vp: "viewport w = Desktop" by (simp add: desktop_closed_def)
  from assms(2) Invoke have "(ev, a) \<in> set (offered w)" by simp
  with i vp have "a \<noteq> SetIsMobileMenuOpen True"
    by (auto simp: offered_desktop trigger_handlers_desktop)
  with assms(1,3) Invoke i show ?thesis
    by (auto simp: desktop_closed_def invoke_def split: action.splits)
next
  case Flush
  with assms(1,3) show ?thesis
    by (auto simp: desktop_closed_def flush_def split: option.splits prod.splits
        dest: desktop_closed_rerender)
next
  case (SetProps p)
  with assms(1,3) show ?thesis
    by (auto simp: desktop_closed_def set_props_def split: option.splits prod.splits
        dest: desktop_closed_rerender)
next
  case Unmount
  with assms(1,3) show ?thesis
    by (auto simp: desktop_closed_def unmount_def split: option.splits)
qed

lemma desktop_closed_step:
  "desktop_closed w \<Longrightarrow> \<not> is_resize e \<Longrightarrow> step w e = Some w' \<Longrightarrow> desktop_closed w'"
  by (cases e) (auto split: if_splits intro: desktop_closed_rt_step)

lemma desktop_closed_init: "desktop_closed (init_world Desktop ov)"
  by (simp add: desktop_closed_def init_world_def)

section \<open>Worlds of reference\<close>

text \<open>
  The world right after the component is mounted, and the world after the hamburger
  button was tapped in it, with the runs that lead to them: concrete worlds at which
  the properties of the root theory are applied.
\<close>

definition page_props :: "bool \<Rightarrow> navbar_props" where
  "page_props b = \<lparr>scrolled = b, onSearchOpen = ''openSearch''\<rparr>"

definition mounted_world :: "viewport \<Rightarrow> navbar_props \<Rightarrow> world" where
  "mounted_world vp p =
     \<lparr>component = Some \<lparr>props = p, state = init_hooks, queue = [], effect_dep = False\<rparr>,
      document = \<lparr>body_overflow = ''unset''\<rparr>, search_calls = [], viewport = vp\<rparr>"

definition open_world :: "viewport \<Rightarrow> navbar_props \<Rightarrow> world" where
  "open_world vp p =
     \<lparr>component = Some \<lparr>props = p, state = init_hooks\<lparr>isMobileMenuOpen := True\<rparr>, queue = [],
        effect_dep = True\<rparr>,
      document = \<lparr>body_overflow = ''hidden''\<rparr>, search_calls = [], viewport = vp\<rparr>"

lemma run_mount: "run (init_world vp ov) [Runtime (Mount p)] = Some (mounted_world vp p)"
  by (simp add: init_world_def mounted_world_def mount_def init_hooks_def effect_body_def)

lemma component_mounted_world:
  "component (mounted_world vp p) =
     Some \<lparr>props = p, state = init_hooks, queue = [], effect_dep = False\<rparr>"
  by (simp add: mounted_world_def)

lemma component_open_world:
  "component (open_world vp p) =
     Some \<lparr>props = p, state = init_hooks\<lparr>isMobileMenuOpen := True\<rparr>, queue = [],
       effect_dep = True\<rparr>"
  by (simp add: open_world_def)

lemma viewport_reference [simp]:
  "viewport (mounted_world vp p) = vp" "viewport (open_world vp p) = vp"
  by (simp_all add: mounted_world_def open_world_def)

lemma mounted_world_observations [simp]:
  "mounted (mounted_world vp p)" "quiescent (mounted_world vp p)"
  "\<not> menu_open (mounted_world vp p)" "open_dropdown (mounted_world vp p) = None"
  "overflow (mounted_world vp p) = ''unset''" "search_calls (mounted_world vp p) = []"
  "hamburger (mounted_world vp p) = (''onClick'', SetIsMobileMenuOpen True)"
  "search_callback (mounted_world vp p) = onSearchOpen p"
  by (simp_all add: observations hamburger_def search_callback_def mounted_world_def
      init_hooks_def)

lemma open_world_observations [simp]:
  "mounted (open_world vp p)" "quiescent (open_world vp p)"
  "menu_open (open_world vp p)" "open_dropdown (open_world vp p) = None"
  "overflow (open_world vp p) = ''hidden''" "search_calls (open_world vp p) = []"
  "hamburger (open_world vp p) = close_menu"
  "search_callback (open_world vp p) = onSearchOpen p"
  by (simp_all add: observations hamburger_def search_callback_def open_world_def
      init_hooks_def)

lemma page_props_simps [simp]:
  "scrolled (page_props b) = b" "onSearchOpen (page_props b) = ''openSearch''"
  by (simp_all add: page_props_def)

lemma run_open:
  "run (mounted_world Mobile p) (tap (''onClick'', SetIsMobileMenuOpen True)) =
     Some (open_world Mobile p)"
proof -
  have off: "(''onClick'', SetIsMobileMenuOpen True) \<in> set (offered (mounted_world Mobile p))"
    by (simp add: offered_mobile [OF component_mounted_world] init_hooks_def)
  have "run (mounted_world Mobile p) (tap (''onClick'', SetIsMobileMenuOpen True)) =
      Some (after_tap (''onClick'', SetIsMobileMenuOpen True)
        \<lparr>props = p, state = init_hooks, queue = [], effect_dep = False\<rparr> (mounted_world Mobile p))"
    by (rule tap_result [OF component_mounted_world _ off]) simp
  then show ?thesis
    by (simp add: after_tap_def mounted_world_def open_world_def init_hooks_def run_effect_def
        effect_body_def effect_cleanup_def)
qed

lemma reachable_mounted_world: "reachable (init_world vp ov) (mounted_world vp p)"
  by (rule run_reachable [OF reachable.start run_mount])

lemma reachable_open_world: "reachable (init_world Mobile ov) (open_world Mobile p)"
  by (rule run_reachable [OF reachable_mounted_world run_open])

lemma reachable_resize: "reachable w0 w \<Longrightarrow> reachable w0 (w\<lparr>viewport := vp\<rparr>)"
  by (erule reachable.after [where e = "Resize vp"]) simp

end
