(* ===== verification/Spec2Isabelle.thy ===== *)
theory Spec2Isabelle
  imports Navbar_Behaviour
begin

text \<open>
  \<^bold>\<open>A verification development for the navigation bar\<close>
  (\<^verbatim>\<open>src/components/home/Navbar.tsx\<close>, the one source file of the repository).

  \<^bold>\<open>The program.\<close> \<^verbatim>\<open>Navbar\<close> is a React function component. It keeps two pieces of
  local state (\<^verbatim>\<open>isMobileMenuOpen\<close>, \<^verbatim>\<open>openDropdown\<close>), registers one effect that
  writes \<^verbatim>\<open>document.body.style.overflow\<close> and depends on \<^verbatim>\<open>isMobileMenuOpen\<close>, holds a
  constant array \<^verbatim>\<open>navItems\<close>, and returns a tree of elements: a bar with a hamburger
  button, a logo link, a desktop list with one sub-menu, a search button and the
  history popup, and a sidebar layer with a backdrop and the mobile list. The
  handlers of the tree call the two setters or the property \<^verbatim>\<open>onSearchOpen\<close>; the
  classes of the tree decide which part is displayed below and from the \<^verbatim>\<open>md\<close>
  breakpoint.

  \<^bold>\<open>The theories\<close>, in the order of their imports.
  \<^item> \<open>Navbar_Prelude\<close>: the rule collections, JavaScript's optional values and
    truthiness, the tokens of a \<^verbatim>\<open>className\<close>, shared list lemmas.
  \<^item> \<open>Nav_Items\<close>: \<^verbatim>\<open>navItems\<close> (lines 30-51) as a list of records with optional
    fields, the tests the render code makes on an entry (lines 98, 99, 147), the
    desktop filter, the React keys. Lemmas: the array entry by entry, that every
    entry rendered as a link has an \<^verbatim>\<open>href\<close>; the property that the keys are
    distinct.
  \<^item> \<open>View_Tree\<close>: element trees as nested calls of \<^verbatim>\<open>createElement\<close> (tag,
    properties, children), their traversals, and the meaning of the classes
    \<^verbatim>\<open>hidden\<close>, \<^verbatim>\<open>md:hidden\<close>, \<^verbatim>\<open>md:flex\<close>, \<^verbatim>\<open>opacity-0\<close>, \<^verbatim>\<open>pointer-events-none\<close> and
    \<^verbatim>\<open>pointer-events-auto\<close> at the two widths: \<open>interactive\<close> gives the handlers a
    user can fire, \<open>shown\<close> the elements that can be seen, \<open>pointer_handlers\<close> the
    handlers of the layers that no layer of a higher \<^verbatim>\<open>z\<close> level covers.
  \<^item> \<open>Navbar_Hooks\<close>: the properties (lines 9-12; a callback is the name of the
    function the parent passes), the hook state (lines 16 and 53), the closures of
    the handlers as a datatype \<open>action\<close>, the effect with its cleanup and its
    dependency (lines 19-28), and the life of an instance under React as functions
    on a record \<open>runtime\<close>: \<open>mount\<close>, \<open>invoke\<close> (a setter call is queued, the
    callback \<^verbatim>\<open>onSearchOpen\<close> of the last render is called at once and the call is
    logged with the callback and the event), \<open>flush\<close> (the render that takes up the
    queue and brings the effect up to date), \<open>set_props\<close>, \<open>unmount\<close>. Lemmas: the
    scroll-lock invariant \<open>lock_inv\<close> and its preservation by every operation, the
    reading of the queue.
  \<^item> \<open>Navbar_Render\<close>: the tree \<^verbatim>\<open>Navbar\<close> returns (lines 55-268), one definition per
    part of the JSX with every property and class string of the source, composed as
    the JSX nests; \<open>render p st\<close> is the whole tree for properties \<open>p\<close> and hook
    state \<open>st\<close>.
  \<^item> \<open>Navbar_View\<close>: what the tree contains, part by part: all handlers, the
    handlers a user can fire at each width, the links with their targets and
    handlers, the links that can be seen, the sub-menu panels, the icons, the texts
    and the keys; and the properties of the tree alone.
  \<^item> \<open>Navbar_System\<close>: the component in its environment. A \<open>world\<close> is a
    \<open>runtime\<close> with the width of the window; \<open>step\<close> lets the environment mount,
    render, pass properties, unmount and resize, and lets the user fire exactly the
    handlers that \<open>interactive\<close> finds in the tree rendered from the current state;
    \<open>reachable\<close> is the inductive closure of \<open>step\<close>. Lemmas: runs and reachability,
    and the invariants \<open>lock_inv\<close> and \<open>state_inv\<close> of the reachable worlds.
  \<^item> \<open>Navbar_Spec\<close>: the two state machines, the scroll lock and the search count
    the specification promises, as a step function on an abstract state.
  \<^item> \<open>Navbar_Behaviour\<close>: taps (a handler call followed by the render React makes
    after a discrete event), what each world offers, the abstraction of a world to
    a state of \<open>Navbar_Spec\<close>, the simulation lemma for a session of discrete
    events (taps, new properties, resizes, renders), the invariant of sessions at
    the desktop width, and two worlds of reference.
  \<^item> \<open>Spec2Isabelle\<close> (this theory): the properties that span components.

  \<^bold>\<open>The properties.\<close> Of the system: the scroll lock follows the menu in every
  reachable world; unmounting restores the scroll; a session of discrete events
  refines the specification, and every activation the specification allows is
  offered; the hamburger button toggles and two taps restore the world; the
  backdrop, the logo and the links of the sidebar carry the closing handler, whose
  tap closes and unlocks; a session at the desktop width never locks; the search
  button calls the callback of the last render once and changes nothing else; the
  sub-menu opens on pointer enter and closes on pointer leave; while the menu is
  open a pointer reaches the sidebar layer only. Of the tree: every link has a
  target path, the sidebar links close the menu, the history entry is seen only in
  the open sidebar, only the external entry opens a new context, the sub-menu
  panel is rendered exactly while its entry is open, the lists show the labels and
  the mobile list the icons of the array in its order, the elements of the lists
  carry distinct keys, the history popup is instantiated once, and \<^verbatim>\<open>scrolled\<close>
  decides the background only. Three properties record behaviour the
  specification does not describe: the lock stays when the window is resized to
  the desktop width while the menu is open; two calls of the hamburger closure
  before a render toggle once; mounting overwrites the overflow the body had.

  \<^bold>\<open>Assumptions of the model.\<close> A render and the commit of its effects are one
  step, as React makes them for a discrete event; a handler runs to its end before
  the next event. A text of the source is the list of the bytes of its UTF-8
  encoding. The property \<^verbatim>\<open>key\<close> is kept as a property of the element, although
  React takes it off the properties a component receives. A user fires a handler
  only on an element that is displayed and takes pointer events (\<open>offered\<close>); the
  steps of the system allow every such handler, by pointer or by keyboard. The
  keyboard is given no reach of its own: in a browser the links of the closed
  sidebar, which is transparent and takes no pointer events, can still be focused;
  they carry the closing handler, which the logo offers in every world, so the set
  of offered handlers is the same. The document is the overflow of the body, so a
  run of the effect that writes the value the body has cannot be told from no run.
  \<open>pointer_offered\<close> are the handlers a pointer reaches: a layer with the classes
  \<^verbatim>\<open>fixed inset-0\<close> covers the layers of a lower \<^verbatim>\<open>z\<close> level; inside a layer every
  handler counts as reached. Nothing but the component writes the overflow of the
  body. Every function of the development is total: there is
  no fuel and no bound.

  \<^bold>\<open>Not modelled.\<close> Styling beyond the class tokens that decide visibility and
  pointer events (colours, transitions, the sliding of the panel), the router
  object (\<^verbatim>\<open>useRouter\<close>, line 15, never used), navigation itself (what \<^verbatim>\<open>next/link\<close>
  does with an \<^verbatim>\<open>href\<close>), the inside of \<^verbatim>\<open>HistoryPopup\<close> and of the icon components,
  which the source only instantiates, and React's development-only double
  invocation of effects.

  \<^bold>\<open>Plan.\<close> Next: sessions of a pointer alone, with the state machine they
  can drive; runs in which several handler calls precede a render, with the
  refinement stated for the batches; focus order and keyboard activation of the
  controls; the attributes of the elements that no property reads yet
  (\<^verbatim>\<open>aria-label\<close>, the image sources).
\<close>

section \<open>The scroll lock\<close>

text \<open>
  C1. In every world that the environment and the user can reach from a page on which
  the component is not mounted, whatever the overflow of the body was before, a
  mounted component has \<^verbatim>\<open>document.body.style.overflow\<close> equal to \<^verbatim>\<open>"hidden"\<close> exactly
  when the mobile menu is open in the state of its last render, and to \<^verbatim>\<open>"unset"\<close>
  otherwise: the scroll lock follows the menu through every mount, handler call,
  render, change of properties and resize.
\<close>

theorem scroll_lock_invariant:
  assumes "reachable (init_world vp ov) w" and "mounted w"
  shows "overflow w = (if menu_open w then ''hidden'' else ''unset'')"
proof -
  from assms(2) obtain i where i: "component w = Some i" by (rule mountedE)
  with assms(1) have "lock_ok i (document w)" by (rule reachable_lock_ok)
  with i show ?thesis by (simp add: lock_ok_def observations)
qed

theorem scroll_lock_invariant_witness:
  "reachable (init_world Mobile ''auto'') (open_world Mobile (page_props False)) \<and>
   mounted (open_world Mobile (page_props False)) \<and>
   menu_open (open_world Mobile (page_props False)) \<and>
   overflow (open_world Mobile (page_props False)) = ''hidden''"
proof -
  have r: "reachable (init_world Mobile ''auto'') (open_world Mobile (page_props False))"
    by (rule reachable_open_world)
  from scroll_lock_invariant [OF r] r show ?thesis by simp
qed

text \<open>
  C2. Teardown restores the scroll whatever the state: when the component is
  mounted after a run of events (the menu open or closed, setter calls still queued
  or not), unmounting succeeds, leaves no component, and leaves the overflow of the
  body at \<^verbatim>\<open>"unset"\<close>.
\<close>

theorem unmount_restores_scroll:
  assumes "run w es = Some w1" and "mounted w1"
  shows "\<exists>w'. run w (es @ [Runtime Unmount]) = Some w' \<and> \<not> mounted w' \<and>
           overflow w' = ''unset'' \<and> search_calls w' = search_calls w1"
proof -
  from assms(2) obtain i where "component w1 = Some i" by (rule mountedE)
  with assms(1) show ?thesis
    by (simp add: run_append unmount_def observations)
qed

theorem unmount_restores_scroll_witness:
  "run (mounted_world Mobile (page_props True)) (tap (''onClick'', SetIsMobileMenuOpen True)) =
     Some (open_world Mobile (page_props True)) \<and>
   overflow (open_world Mobile (page_props True)) = ''hidden'' \<and>
   (\<exists>w'. run (mounted_world Mobile (page_props True))
            (tap (''onClick'', SetIsMobileMenuOpen True) @ [Runtime Unmount]) = Some w' \<and>
          \<not> mounted w' \<and> overflow w' = ''unset'' \<and> search_calls w' = [])"
proof -
  have r: "run (mounted_world Mobile (page_props True))
      (tap (''onClick'', SetIsMobileMenuOpen True)) = Some (open_world Mobile (page_props True))"
    by (rule run_open)
  from unmount_restores_scroll [OF r] r show ?thesis by simp
qed

section \<open>The mobile menu\<close>

text \<open>
  C4. Below the breakpoint, in a reachable world with no setter call pending, the
  one handler a user can fire on the hamburger button sets \<^verbatim>\<open>isMobileMenuOpen\<close> to the
  negation of the rendered value; a tap on it is possible and inverts the menu, and
  a second tap (on the button of the new render) leads back to the very world the
  first tap started from: state, document and search calls.
\<close>

theorem hamburger_twice:
  assumes "reachable (init_world vp ov) w" and "component w = Some i" and "queue i = []"
    and "viewport w = Mobile"
  shows "interactive Mobile (render_hamburger (state i)) = [hamburger w] \<and>
         (\<exists>w1. run w (tap (hamburger w)) = Some w1 \<and> menu_open w1 = (\<not> menu_open w) \<and>
            run w1 (tap (hamburger w1)) = Some w)"
proof -
  note i = assms(2) and q = assms(3)
  from assms(1) i have lock: "lock_ok i (document w)" by (rule reachable_lock_ok)
  let ?w1 = "after_tap (hamburger w) i w"
  let ?i1 = "\<lparr>props = props i, state = apply_action (state i) (snd (hamburger w)), queue = [],
    effect_dep = isMobileMenuOpen (apply_action (state i) (snd (hamburger w)))\<rparr>"
  have b: "interactive Mobile (render_hamburger (state i)) = [hamburger w]"
    using i by (simp add: interactive_def rh_hamburger hamburger_def menu_open_def)
  have h: "hamburger w \<in> set (offered w)" using i assms(4) by (rule hamburger_offered)
  have t1: "run w (tap (hamburger w)) = Some ?w1" using i q h by (rule tap_result)
  have c1: "component ?w1 = Some ?i1" by simp
  have m1: "menu_open ?w1 = (\<not> menu_open w)" using i by (simp add: menu_open_def)
  have h1: "hamburger ?w1 \<in> set (offered ?w1)"
    using c1 by (rule hamburger_offered) (simp add: assms(4))
  have t2: "run ?w1 (tap (hamburger ?w1)) = Some (after_tap (hamburger ?w1) ?i1 ?w1)"
    by (rule tap_result [OF c1 _ h1]) simp
  have "after_tap (hamburger ?w1) ?i1 ?w1 = w"
  proof (rule world_eqI)
    show "component (after_tap (hamburger ?w1) ?i1 ?w1) = component w"
      using i q lock by (simp add: menu_open_def lock_ok_def)
    show "document (after_tap (hamburger ?w1) ?i1 ?w1) = document w"
      using i lock
      by (intro dom_eqI)
        (auto simp: document_after_tap run_effect_overflow menu_open_def lock_ok_def)
  qed simp_all
  with b t1 m1 t2 show ?thesis by simp
qed

theorem hamburger_twice_witness:
  "interactive Mobile (render_hamburger init_hooks) = [(''onClick'', SetIsMobileMenuOpen True)] \<and>
   (\<exists>w1. run (mounted_world Mobile (page_props False))
           (tap (''onClick'', SetIsMobileMenuOpen True)) = Some w1 \<and>
     menu_open w1 \<and>
     run w1 (tap (hamburger w1)) = Some (mounted_world Mobile (page_props False)))"
proof -
  have r: "reachable (init_world Mobile ''auto'') (mounted_world Mobile (page_props False))"
    by (rule reachable_mounted_world)
  from hamburger_twice [OF r component_mounted_world] show ?thesis by simp
qed

text \<open>
  C11. The closure of the hamburger button holds the value of \<^verbatim>\<open>isMobileMenuOpen\<close> its
  render read: two calls of it before React renders again queue the same value twice,
  and the render that follows inverts the menu once, as a single call does.
\<close>

theorem hamburger_stale_closure:
  assumes "mounted w" and "quiescent w" and "viewport w = Mobile"
  shows "\<exists>w'. run w [Runtime (Invoke ''onClick'' (snd (hamburger w))),
                      Runtime (Invoke ''onClick'' (snd (hamburger w))), Runtime Flush] = Some w' \<and>
           run w (tap (hamburger w)) = Some w' \<and> menu_open w' = (\<not> menu_open w)"
proof -
  from assms(1) obtain i where i: "component w = Some i" by (rule mountedE)
  from assms(2) i have q: "queue i = []" by (rule quiescent_queue)
  have h: "hamburger w \<in> set (offered w)" using i assms(3) by (rule hamburger_offered)
  have off: "offered (w\<lparr>component := Some (i\<lparr>queue := [snd (hamburger w)]\<rparr>)\<rparr>) = offered w"
    using i by (simp add: offered_def view_of_def)
  from i q h off show ?thesis
    by (simp add: tap_def hamburger_def invoke_def flush_def rerender_def menu_open_def)
qed

theorem hamburger_stale_closure_witness:
  "\<exists>w'. run (mounted_world Mobile (page_props False))
           [Runtime (Invoke ''onClick'' (SetIsMobileMenuOpen True)),
            Runtime (Invoke ''onClick'' (SetIsMobileMenuOpen True)), Runtime Flush] = Some w' \<and>
     menu_open w'"
  using hamburger_stale_closure [of "mounted_world Mobile (page_props False)"]
  by (simp del: run.simps) blast

text \<open>
  C5. The controls that close the menu carry the handler \<^verbatim>\<open>() => setIsMobileMenuOpen(false)\<close>
  and no other: the backdrop, the logo link, and with the backdrop every one of the
  nine links of the sidebar layer. In a reachable world with no setter call pending,
  a tap on the handler of any of these controls is possible, closes the menu and
  releases the scroll, whatever the state was, and leaves the open sub-menu and the
  search calls alone.
\<close>

theorem close_menu_tap:
  assumes "reachable (init_world vp ov) w" and "mounted w" and "quiescent w"
  shows "all_handlers render_backdrop = [close_menu] \<and>
         all_handlers render_logo = [close_menu] \<and>
         all_handlers (render_sidebar st) = replicate 10 close_menu \<and>
         (\<forall>h \<in> set (all_handlers render_backdrop @ all_handlers render_logo @
                    all_handlers (render_sidebar st)).
            \<exists>w'. run w (tap h) = Some w' \<and> \<not> menu_open w' \<and> overflow w' = ''unset'' \<and>
              open_dropdown w' = open_dropdown w \<and> search_calls w' = search_calls w)"
proof -
  from assms(2) obtain i where i: "component w = Some i" by (rule mountedE)
  from assms(3) i have q: "queue i = []" by (rule quiescent_queue)
  from assms(1) i have lock: "lock_ok i (document w)" by (rule reachable_lock_ok)
  have all: "set (all_handlers render_backdrop @ all_handlers render_logo @
      all_handlers (render_sidebar st)) = {close_menu}"
    by (simp add: ah_backdrop ah_logo set_ah_sidebar)
  from i have "close_menu \<in> set (offered w)" by (rule close_offered)
  with i q have "run w (tap close_menu) = Some (after_tap close_menu i w)" by (rule tap_result)
  with i lock have "\<exists>w'. run w (tap close_menu) = Some w' \<and> \<not> menu_open w' \<and>
      overflow w' = ''unset'' \<and> open_dropdown w' = open_dropdown w \<and>
      search_calls w' = search_calls w"
    by (simp add: overflow_after_tap open_dropdown_def)
  then show ?thesis
    unfolding all by (simp add: ah_backdrop ah_logo ah_sidebar_eq)
qed

theorem close_menu_tap_witness:
  "menu_open (open_world Mobile (page_props False)) \<and>
   overflow (open_world Mobile (page_props False)) = ''hidden'' \<and>
   all_handlers render_backdrop = [close_menu] \<and>
   (\<exists>w'. run (open_world Mobile (page_props False)) (tap close_menu) = Some w' \<and>
      \<not> menu_open w' \<and> overflow w' = ''unset'')"
proof -
  let ?w = "open_world Mobile (page_props False)"
  have r: "reachable (init_world Mobile ''auto'') ?w" by (rule reachable_open_world)
  have m: "close_menu \<in> set (all_handlers render_backdrop @ all_handlers render_logo @
      all_handlers (render_sidebar init_hooks))"
    by (simp add: ah_backdrop)
  note t = close_menu_tap [OF r open_world_observations(1,2), of init_hooks]
  from t have b: "all_handlers render_backdrop = [close_menu]" by (rule conjunct1)
  from t [THEN conjunct2, THEN conjunct2, THEN conjunct2] m
  obtain w' where "run ?w (tap close_menu) = Some w'" "\<not> menu_open w'" "overflow w' = ''unset''"
    by blast
  with b show ?thesis by auto
qed

text \<open>
  C6. The scroll lock outlives the menu when the window grows: after the menu is
  opened below the breakpoint and the window is resized to the desktop width, the
  overflow of the body is still \<^verbatim>\<open>"hidden"\<close>, while the hamburger button and the whole
  sidebar layer with its backdrop are not displayed and offer no handler; what the
  page offers is the desktop bar.
\<close>

theorem resize_keeps_scroll_locked:
  "run (init_world Mobile ov)
     (Runtime (Mount p) # tap (''onClick'', SetIsMobileMenuOpen True) @ [Resize Desktop]) =
     Some (open_world Desktop p) \<and>
   overflow (open_world Desktop p) = ''hidden'' \<and>
   interactive Desktop (render_hamburger (init_hooks\<lparr>isMobileMenuOpen := True\<rparr>)) = [] \<and>
   interactive Desktop (render_sidebar (init_hooks\<lparr>isMobileMenuOpen := True\<rparr>)) = [] \<and>
   shown Desktop t (render_sidebar (init_hooks\<lparr>isMobileMenuOpen := True\<rparr>)) = [] \<and>
   set (offered (open_world Desktop p)) =
     {close_menu, (''onClick'', OnSearchOpen),
      (''onMouseEnter'', SetOpenDropdown (Some label_shorts)),
      (''onMouseLeave'', SetOpenDropdown None)}"
proof -
  have "run (init_world Mobile ov)
      ([Runtime (Mount p)] @ tap (''onClick'', SetIsMobileMenuOpen True) @ [Resize Desktop]) =
      Some (open_world Desktop p)"
    by (simp only: run_append run_mount run_open option.case) (simp add: open_world_def)
  moreover have "shown Desktop t (render_sidebar (init_hooks\<lparr>isMobileMenuOpen := True\<rparr>)) = []"
    by (simp add: render_sidebar_def shown_elem class_simps)
  moreover have "set (offered (open_world Desktop p)) =
     {close_menu, (''onClick'', OnSearchOpen),
      (''onMouseEnter'', SetOpenDropdown (Some label_shorts)),
      (''onMouseLeave'', SetOpenDropdown None)}"
    by (simp add: offered_desktop [OF component_open_world] trigger_handlers_desktop) blast
  ultimately show ?thesis
    by (simp add: interactive_def rh_hamburger rh_sidebar)
qed

text \<open>
  C7. A session that starts at the desktop width and never resizes the window never
  opens the mobile menu and never suspends the scroll: whatever the user fires and
  however often the component is mounted, rendered and unmounted, a mounted component
  has the menu closed and the overflow of the body at \<^verbatim>\<open>"unset"\<close>.
\<close>

theorem desktop_session_never_locks:
  assumes "run (init_world Desktop ov) es = Some w" and "list_all (\<lambda>e. \<not> is_resize e) es"
    and "mounted w"
  shows "\<not> menu_open w \<and> overflow w = ''unset''"
proof -
  from assms(1) desktop_closed_init have "desktop_closed w"
    by (rule run_invariant) (use assms(2) in \<open>auto simp: list_all_iff intro: desktop_closed_step\<close>)
  moreover from assms(3) obtain i where i: "component w = Some i" by (rule mountedE)
  moreover have "reachable (init_world Desktop ov) w"
    using reachable.start assms(1) by (rule run_reachable)
  then have "lock_ok i (document w)" using i by (rule reachable_lock_ok)
  ultimately show ?thesis by (simp add: desktop_closed_def lock_ok_def observations)
qed

theorem desktop_session_never_locks_witness:
  "run (init_world Desktop ''scroll'') [Runtime (Mount (page_props False))] =
     Some (mounted_world Desktop (page_props False)) \<and>
   \<not> menu_open (mounted_world Desktop (page_props False)) \<and>
   overflow (mounted_world Desktop (page_props False)) = ''unset''"
proof -
  have r: "run (init_world Desktop ''scroll'') [Runtime (Mount (page_props False))] =
      Some (mounted_world Desktop (page_props False))"
    by (rule run_mount)
  from desktop_session_never_locks [OF r] r show ?thesis by simp
qed

section \<open>The search control and the sub-menu\<close>

text \<open>
  C8. A tap on the search button, at either width and in any state, calls the
  callback \<^verbatim>\<open>onSearchOpen\<close> of the properties of the last render exactly once, with the
  click event as its argument, and changes nothing else: the component and the
  document are the ones before the tap.
\<close>

theorem search_tap_calls_once:
  assumes "reachable (init_world vp ov) w" and "mounted w" and "quiescent w"
  shows "\<exists>w'. run w (tap (''onClick'', OnSearchOpen)) = Some w' \<and>
           search_calls w' = search_calls w @ [(search_callback w, ''onClick'')] \<and>
           component w' = component w \<and> document w' = document w"
proof -
  from assms(2) obtain i where i: "component w = Some i" by (rule mountedE)
  from assms(3) i have q: "queue i = []" by (rule quiescent_queue)
  from assms(1) i have lock: "lock_ok i (document w)" by (rule reachable_lock_ok)
  from i have "(''onClick'', OnSearchOpen) \<in> set (offered w)" by (rule search_offered)
  with i q have "run w (tap (''onClick'', OnSearchOpen)) =
      Some (after_tap (''onClick'', OnSearchOpen) i w)"
    by (rule tap_result)
  with i q lock show ?thesis
    by (simp add: document_after_tap run_effect_def lock_ok_def search_callback_def)
qed

theorem search_tap_calls_once_witness:
  "\<exists>w'. run (open_world Mobile (page_props True)) (tap (''onClick'', OnSearchOpen)) = Some w' \<and>
     search_calls w' = [(''openSearch'', ''onClick'')] \<and> menu_open w' \<and>
     overflow w' = ''hidden''"
proof -
  have r: "reachable (init_world Mobile ''auto'') (open_world Mobile (page_props True))"
    by (rule reachable_open_world)
  from search_tap_calls_once [OF r] obtain w' where
    w': "run (open_world Mobile (page_props True)) (tap (''onClick'', OnSearchOpen)) = Some w'"
      "search_calls w' = [(''openSearch'', ''onClick'')]"
    and same: "component w' = component (open_world Mobile (page_props True))"
      "document w' = document (open_world Mobile (page_props True))"
    by auto
  from same have "menu_open w'" "overflow w' = ''hidden''"
    by (simp_all add: menu_open_def overflow_def open_world_def)
  with w' show ?thesis by blast
qed

text \<open>
  C10. At the desktop width, in a reachable world with no setter call pending, the
  pointer entering the trigger of the one entry with a sub-menu opens that sub-menu,
  and the pointer leaving it closes it again; the mobile menu and the scroll lock
  are untouched by both.
\<close>

theorem dropdown_hover:
  assumes "reachable (init_world vp ov) w" and "mounted w" and "quiescent w"
    and "viewport w = Desktop"
  shows "\<exists>w1 w2. run w (tap (''onMouseEnter'', SetOpenDropdown (Some label_shorts))) = Some w1 \<and>
           open_dropdown w1 = Some label_shorts \<and>
           run w1 (tap (''onMouseLeave'', SetOpenDropdown None)) = Some w2 \<and>
           open_dropdown w2 = None \<and> menu_open w2 = menu_open w \<and> overflow w2 = overflow w"
proof -
  from assms(2) obtain i where i: "component w = Some i" by (rule mountedE)
  from assms(3) i have q: "queue i = []" by (rule quiescent_queue)
  from assms(1) i have lock: "lock_ok i (document w)" by (rule reachable_lock_ok)
  let ?enter = "(''onMouseEnter'', SetOpenDropdown (Some label_shorts))"
  let ?leave = "(''onMouseLeave'', SetOpenDropdown None)"
  let ?w1 = "after_tap ?enter i w"
  let ?i1 = "\<lparr>props = props i, state = apply_action (state i) (snd ?enter), queue = [],
    effect_dep = isMobileMenuOpen (apply_action (state i) (snd ?enter))\<rparr>"
  have c1: "component ?w1 = Some ?i1" by simp
  have "?enter \<in> set (offered w)"
    using i assms(4) by (simp add: offered_desktop trigger_handlers_desktop)
  with i q have t1: "run w (tap ?enter) = Some ?w1" by (rule tap_result)
  have l1: "?leave \<in> set (offered ?w1)"
    using assms(4) by (simp add: offered_desktop [OF c1] trigger_handlers_desktop)
  have t2: "run ?w1 (tap ?leave) = Some (after_tap ?leave ?i1 ?w1)"
    by (rule tap_result [OF c1 _ l1]) simp
  from i lock have "overflow (after_tap ?leave ?i1 ?w1) = overflow w"
    by (simp add: overflow_def document_after_tap run_effect_def lock_ok_def)
  with t1 t2 i show ?thesis by (simp add: menu_open_def)
qed

theorem dropdown_hover_witness:
  "\<exists>w1 w2. run (mounted_world Desktop (page_props False))
       (tap (''onMouseEnter'', SetOpenDropdown (Some label_shorts))) = Some w1 \<and>
     open_dropdown w1 = Some label_shorts \<and>
     run w1 (tap (''onMouseLeave'', SetOpenDropdown None)) = Some w2 \<and>
     open_dropdown w2 = None \<and> \<not> menu_open w2 \<and> overflow w2 = ''unset''"
proof -
  have r: "reachable (init_world Desktop ''auto'') (mounted_world Desktop (page_props False))"
    by (rule reachable_mounted_world)
  from dropdown_hover [OF r] show ?thesis by simp
qed

section \<open>What a pointer reaches\<close>

text \<open>
  C12. While the mobile menu is open below the breakpoint the sidebar layer lies
  above the bar and covers the window: a pointer reaches the handlers of the sidebar
  layer only, and a tap on any of them closes the menu; the search button and the
  hamburger button of the bar, with the handler that closes the menu, stay offered,
  to the keyboard alone. In every other world a pointer reaches every handler the
  tree offers.
\<close>

theorem open_menu_is_modal:
  assumes "component w = Some i" and "queue i = []"
  shows "if viewport w = Mobile \<and> menu_open w
         then pointer_offered w = interactive Mobile (render_sidebar (state i)) \<and>
              set (pointer_offered w) = {close_menu} \<and>
              (''onClick'', OnSearchOpen) \<in> set (offered w) \<and>
              interactive Mobile (render_hamburger (state i)) = [close_menu] \<and>
              set (interactive Mobile (render_nav (props i) (state i))) \<subseteq> set (offered w) \<and>
              (\<forall>h \<in> set (pointer_offered w). \<exists>w'. run w (tap h) = Some w' \<and> \<not> menu_open w')
         else pointer_offered w = offered w"
proof (cases "viewport w = Mobile \<and> menu_open w")
  case True
  with assms(1) have p: "pointer_offered w = interactive Mobile (render_sidebar (state i))"
    by (simp add: pointer_offered_def view_of_def pointer_handlers_render menu_open_def)
  with True assms(1) have s: "set (pointer_offered w) = {close_menu}"
    by (auto simp: interactive_def rh_sidebar menu_open_def)
  from True assms(1) have b: "interactive Mobile (render_hamburger (state i)) = [close_menu]"
    and n: "set (interactive Mobile (render_nav (props i) (state i))) \<subseteq> set (offered w)"
    by (auto simp: interactive_def rh_hamburger rh_nav offered_mobile menu_open_def)
  from assms(1) have c: "close_menu \<in> set (offered w)" by (rule close_offered)
  with assms have "run w (tap close_menu) = Some (after_tap close_menu i w)" by (rule tap_result)
  then have "\<exists>w'. run w (tap close_menu) = Some w' \<and> \<not> menu_open w'" by simp
  with True p s b n search_offered [OF assms(1)] show ?thesis by simp
next
  case False
  with assms(1) show ?thesis
    by (auto simp: pointer_offered_def offered_def view_of_def pointer_handlers_render
        menu_open_def)
qed

theorem open_menu_is_modal_witness:
  "set (pointer_offered (open_world Mobile (page_props False))) = {close_menu} \<and>
   (''onClick'', OnSearchOpen) \<in> set (offered (open_world Mobile (page_props False))) \<and>
   pointer_offered (mounted_world Mobile (page_props False)) =
     offered (mounted_world Mobile (page_props False))"
proof -
  have o: "component (open_world Mobile (page_props False)) =
      Some \<lparr>props = page_props False, state = init_hooks\<lparr>isMobileMenuOpen := True\<rparr>,
        queue = [], effect_dep = True\<rparr>"
    by (rule component_open_world)
  have m: "component (mounted_world Mobile (page_props False)) =
      Some \<lparr>props = page_props False, state = init_hooks, queue = [], effect_dep = False\<rparr>"
    by (rule component_mounted_world)
  from open_menu_is_modal [OF o] open_menu_is_modal [OF m] show ?thesis by auto
qed

section \<open>Refinement\<close>

text \<open>
  C3. The component implements the state machines of the specification: every
  session of discrete events that is possible after mounting (taps on offered
  handlers, new properties, resizes of the window, renders) leads to a world whose
  abstraction (menu, open sub-menu, scroll lock, number of search activations) is
  the state the specification reaches from its initial state by the activations
  the tapped handlers stand for.
\<close>

theorem navbar_refines_spec:
  assumes "run (init_world vp ov) (Runtime (Mount p) # session us) = Some w"
  shows "\<exists>i. component w = Some i \<and> abstraction i w = spec_run spec_init (activations us)"
proof -
  let ?i = "\<lparr>props = p, state = init_hooks, queue = [], effect_dep = False\<rparr>"
  from assms have "run (init_world vp ov) ([Runtime (Mount p)] @ session us) = Some w" by simp
  then have r: "run (mounted_world vp p) (session us) = Some w"
    by (simp only: run_append run_mount option.case)
  have "abstraction ?i (mounted_world vp p) = spec_init"
    by (simp add: abstraction_def spec_init_def mounted_world_def init_hooks_def)
  with session_refine [OF reachable_mounted_world component_mounted_world _ r]
  show ?thesis by auto
qed

theorem navbar_refines_spec_witness:
  "run (init_world Mobile ''auto'')
     (Runtime (Mount (page_props False)) #
      session [Tap (''onClick'', SetIsMobileMenuOpen True), Width Desktop]) =
     Some (open_world Desktop (page_props False)) \<and>
   (\<exists>i. component (open_world Desktop (page_props False)) = Some i \<and>
      abstraction i (open_world Desktop (page_props False)) =
        \<lparr>menu = MenuOpen, dropdown = DropdownClosed, scroll_locked = True, searches = 0\<rparr>)"
proof -
  have "run (init_world Mobile ''auto'')
     ([Runtime (Mount (page_props False))] @
      tap (''onClick'', SetIsMobileMenuOpen True) @ [Resize Desktop]) =
     Some (open_world Desktop (page_props False))"
    by (simp only: run_append run_mount run_open option.case) (simp add: open_world_def)
  then have r: "run (init_world Mobile ''auto'')
     (Runtime (Mount (page_props False)) #
      session [Tap (''onClick'', SetIsMobileMenuOpen True), Width Desktop]) =
     Some (open_world Desktop (page_props False))"
    by (simp del: run.simps)
  from navbar_refines_spec [OF r] r show ?thesis by (simp add: spec_init_def del: run.simps)
qed

text \<open>
  C9. The simulation is not empty: in every reachable world with no setter call
  pending, each activation the specification allows at the width of the window is
  implemented by a handler the tree offers, whose tap has on the abstraction the
  effect the specification gives the activation.
\<close>

theorem spec_activations_offered:
  assumes "reachable (init_world vp ov) w" and "component w = Some i" and "queue i = []"
  shows "\<forall>e \<in> set (spec_enabled (viewport w)). \<exists>h \<in> set (offered w). \<exists>i1.
           run w (tap h) = Some (after_tap h i w) \<and> component (after_tap h i w) = Some i1 \<and>
           abstraction i1 (after_tap h i w) = spec_step (abstraction i w) e"
proof
  fix e assume e: "e \<in> set (spec_enabled (viewport w))"
  from assms(1,2) have lock: "lock_ok i (document w)" by (rule reachable_lock_ok)
  from assms(1,2) have ok: "hooks_ok (state i)" by (rule reachable_hooks_ok)
  define h where "h = (case e of
      Hamburger \<Rightarrow> hamburger w | CloseMenu \<Rightarrow> close_menu
    | PointerEnter l \<Rightarrow> (''onMouseEnter'', SetOpenDropdown (Some l))
    | PointerLeave l \<Rightarrow> (''onMouseLeave'', SetOpenDropdown None)
    | SearchActivated \<Rightarrow> (''onClick'', OnSearchOpen))"
  have off: "h \<in> set (offered w)"
    using e assms(2)
    by (cases "viewport w")
      (auto simp: h_def offered_mobile offered_desktop trigger_handlers_desktop
        dropdown_labels_eq hamburger_def menu_open_def)
  have same: "spec_step (abstraction i w) (spec_event_of h) = spec_step (abstraction i w) e"
    using e assms(2) lock ok
    by (cases "viewport w"; cases "openDropdown (state i)")
      (auto simp: h_def hamburger_def menu_open_def abstraction_def lock_ok_def hooks_ok_def
        dropdown_labels_eq)
  from assms(2,3) off have "run w (tap h) = Some (after_tap h i w)" by (rule tap_result)
  moreover from assms(2) lock ok off have "abstraction
      \<lparr>props = props i, state = apply_action (state i) (snd h), queue = [],
        effect_dep = isMobileMenuOpen (apply_action (state i) (snd h))\<rparr> (after_tap h i w) =
      spec_step (abstraction i w) (spec_event_of h)"
    by (rule abstraction_after_tap)
  ultimately show "\<exists>h \<in> set (offered w). \<exists>i1.
      run w (tap h) = Some (after_tap h i w) \<and> component (after_tap h i w) = Some i1 \<and>
      abstraction i1 (after_tap h i w) = spec_step (abstraction i w) e"
    using off same by (intro bexI [of _ h]) auto
qed

theorem spec_activations_offered_witness:
  "set (spec_enabled Mobile) = {Hamburger, CloseMenu, SearchActivated} \<and>
   (\<exists>h \<in> set (offered (mounted_world Mobile (page_props False))). \<exists>w1 i1.
      run (mounted_world Mobile (page_props False)) (tap h) = Some w1 \<and>
      component w1 = Some i1 \<and> menu (abstraction i1 w1) = MenuOpen \<and>
      scroll_locked (abstraction i1 w1))"
proof -
  let ?w = "mounted_world Mobile (page_props False)"
  let ?i = "\<lparr>props = (page_props False), state = init_hooks, queue = [], effect_dep = False\<rparr>"
  have r: "reachable (init_world Mobile ''auto'') ?w" by (rule reachable_mounted_world)
  have a: "abstraction ?i ?w = spec_init"
    by (simp add: abstraction_def spec_init_def mounted_world_def init_hooks_def)
  have "\<forall>e \<in> set (spec_enabled (viewport ?w)). \<exists>h \<in> set (offered ?w). \<exists>i1.
      run ?w (tap h) = Some (after_tap h ?i ?w) \<and> component (after_tap h ?i ?w) = Some i1 \<and>
      abstraction i1 (after_tap h ?i ?w) = spec_step (abstraction ?i ?w) e"
    by (rule spec_activations_offered [OF r component_mounted_world]) simp
  then obtain h i1 where "h \<in> set (offered ?w)" "run ?w (tap h) = Some (after_tap h ?i ?w)"
    "component (after_tap h ?i ?w) = Some i1"
    "abstraction i1 (after_tap h ?i ?w) = spec_step spec_init Hamburger"
    unfolding a by (auto dest: bspec [where x = Hamburger])
  then show ?thesis by (auto simp: spec_init_def intro!: bexI [of _ h])
qed

section \<open>The life cycle and the state of the sub-menu\<close>

text \<open>
  C23. Mounting and unmounting do not restore the overflow the body had before: the
  first run of the effect writes \<^verbatim>\<open>"unset"\<close> over it and the cleanup writes \<^verbatim>\<open>"unset"\<close>
  again, so a page whose body had another overflow has \<^verbatim>\<open>"unset"\<close> once the component
  has come and gone.
\<close>

theorem mount_unmount_overwrites_overflow:
  "run (init_world vp ov) [Runtime (Mount p)] = Some (mounted_world vp p) \<and>
   overflow (mounted_world vp p) = ''unset'' \<and>
   run (init_world vp ov) [Runtime (Mount p), Runtime Unmount] = Some (init_world vp ''unset'')"
proof -
  have "run (init_world vp ov) ([Runtime (Mount p)] @ [Runtime Unmount]) =
      Some (init_world vp ''unset'')"
    by (simp only: run_append run_mount option.case)
      (simp add: mounted_world_def init_world_def unmount_def effect_cleanup_def)
  then show ?thesis by (simp add: run_mount del: run.simps)
qed

text \<open>
  C21. In every reachable world \<^verbatim>\<open>openDropdown\<close> is \<^verbatim>\<open>null\<close> or the label of the one
  entry with a sub-menu: the handlers the tree offers never set it to anything else,
  so at most one sub-menu is open and the pointer-leave handler, which clears the
  state without comparing labels, clears the sub-menu of the trigger it belongs to.
\<close>

theorem dropdown_state_invariant:
  assumes "reachable (init_world vp ov) w"
  shows "open_dropdown w = None \<or> open_dropdown w = Some label_shorts"
proof (cases "component w")
  case None
  then show ?thesis by (simp add: open_dropdown_def)
next
  case (Some i)
  with assms have "hooks_ok (state i)" by (rule reachable_hooks_ok)
  with Some show ?thesis
    by (cases "openDropdown (state i)")
      (simp_all add: open_dropdown_def hooks_ok_def dropdown_labels_eq)
qed

theorem dropdown_state_invariant_witness:
  "reachable (init_world Desktop ''auto'') (mounted_world Desktop (page_props False)) \<and>
   open_dropdown (mounted_world Desktop (page_props False)) = None"
proof -
  have r: "reachable (init_world Desktop ''auto'') (mounted_world Desktop (page_props False))"
    by (rule reachable_mounted_world)
  from dropdown_state_invariant [OF r] r show ?thesis by simp
qed

end
